theory Spec2Isabelle
  imports Complex_Main
begin

section \<open>Values\<close>

text \<open>
  The cells of a feature matrix are binary64 numbers.  They are modelled as exact reals
  extended with the three special values of IEEE 754 that the arithmetic of
  \<^verbatim>\<open>normalize_data\<close> can produce: both infinities and NaN.  What pandas and numpy do
  at a zero denominator (no exception: a signed infinity, or NaN for 0/0) is written out
  in \<open>fdiv\<close>.  The operations of this section are exact on finite operands; the
  rounding of binary64, and with it the overflow of finite results, is added in the
  section on rounding.  The sign of zero is not part of the model: every zero is the
  positive one.
\<close>

datatype float64 = Fin real | PosInf | NegInf | NaN

fun fneg :: "float64 \<Rightarrow> float64" where
  "fneg (Fin a) = Fin (- a)"
| "fneg PosInf = NegInf"
| "fneg NegInf = PosInf"
| "fneg NaN = NaN"

text \<open>Addition; \<open>inf + (-inf)\<close> is NaN.\<close>

fun fadd :: "float64 \<Rightarrow> float64 \<Rightarrow> float64" where
  "fadd NaN _ = NaN"
| "fadd _ NaN = NaN"
| "fadd (Fin a) (Fin b) = Fin (a + b)"
| "fadd PosInf NegInf = NaN"
| "fadd NegInf PosInf = NaN"
| "fadd PosInf _ = PosInf"
| "fadd NegInf _ = NegInf"
| "fadd (Fin _) PosInf = PosInf"
| "fadd (Fin _) NegInf = NegInf"

definition fsub :: "float64 \<Rightarrow> float64 \<Rightarrow> float64" where
  "fsub x y = fadd x (fneg y)"

text \<open>The sign of a value that is not NaN, as \<open>-1\<close>, \<open>0\<close> or \<open>1\<close>.\<close>

fun fsgn :: "float64 \<Rightarrow> real" where
  "fsgn (Fin a) = sgn a"
| "fsgn PosInf = 1"
| "fsgn NegInf = - 1"
| "fsgn NaN = 0"

definition signed_inf :: "real \<Rightarrow> float64" where
  "signed_inf s = (if s < 0 then NegInf else PosInf)"

text \<open>Multiplication; \<open>inf * 0\<close> is NaN.\<close>

fun fmul :: "float64 \<Rightarrow> float64 \<Rightarrow> float64" where
  "fmul NaN _ = NaN"
| "fmul _ NaN = NaN"
| "fmul (Fin a) (Fin b) = Fin (a * b)"
| "fmul x y = (if fsgn x * fsgn y = 0 then NaN else signed_inf (fsgn x * fsgn y))"

text \<open>
  Division as numpy computes it on arrays: a zero denominator raises nothing.  \<open>0/0\<close> and
  \<open>inf/inf\<close> are NaN, a non-zero numerator over zero is an infinity of the numerator's
  sign, and a finite numerator over an infinity is zero.
\<close>

fun fdiv :: "float64 \<Rightarrow> float64 \<Rightarrow> float64" where
  "fdiv NaN _ = NaN"
| "fdiv _ NaN = NaN"
| "fdiv (Fin a) (Fin b) =
     (if b = 0 then (if a = 0 then NaN else signed_inf a) else Fin (a / b))"
| "fdiv (Fin _) _ = Fin 0"
| "fdiv x (Fin b) = signed_inf (fsgn x * (if b < 0 then - 1 else 1))"
| "fdiv _ _ = NaN"

text \<open>The comparison \<open>\<le>\<close> of binary64: false as soon as one side is NaN.\<close>

fun fle :: "float64 \<Rightarrow> float64 \<Rightarrow> bool" where
  "fle NaN _ = False"
| "fle _ NaN = False"
| "fle NegInf _ = True"
| "fle _ PosInf = True"
| "fle (Fin a) (Fin b) = (a \<le> b)"
| "fle _ _ = False"

definition isnan :: "float64 \<Rightarrow> bool" where
  "isnan x = (x = NaN)"

section \<open>Frames, series and Python objects\<close>

text \<open>
  A pandas Series of numbers is a list of labelled cells, a DataFrame a list of labelled
  columns, both in the order pandas keeps them.  Labels can repeat in pandas, so nothing
  here makes them distinct; the theorems that need distinct labels say so.
\<close>

type_synonym series = "(string \<times> float64) list"

type_synonym dataframe = "(string \<times> float64 list) list"

text \<open>
  The values a Python dictionary of this plugin holds: feature matrices, series, numbers,
  and anything else (label frames, weight arrays, ...) as an opaque \<open>Object\<close>.
\<close>

datatype 'a pyobj = DataFrame dataframe | Series series | Float float64 | Object 'a

text \<open>
  \<open>KeyError\<close>, \<open>AttributeError\<close>, \<open>TypeError\<close> and \<open>ValueError\<close> are Python's.  \<open>NotAligned\<close>
  marks the one place where the model stops although pandas goes on: arithmetic between
  operands whose labels differ, which pandas reindexes to the union of the labels and
  fills with NaN.  That reindexing is outside this model.
\<close>

datatype error = KeyError string | AttributeError | TypeError | ValueError | NotAligned

type_synonym 'a pydict = "string \<rightharpoonup> 'a pyobj"

definition getitem :: "'a pydict \<Rightarrow> string \<Rightarrow> error + 'a pyobj" where
  "getitem d k = (case d k of None \<Rightarrow> Inl (KeyError k) | Some v \<Rightarrow> Inr v)"

definition columns :: "dataframe \<Rightarrow> string list" where
  "columns df = map fst df"

definition keys :: "series \<Rightarrow> string list" where
  "keys s = map fst s"

text \<open>
  \<^verbatim>\<open>s[item]\<close> on a Series: the cell under a label that occurs once, the sub-series of
  all its cells when the label repeats, \<open>KeyError\<close> when it is absent.
\<close>

definition series_getitem :: "series \<Rightarrow> string \<Rightarrow> error + 'a pyobj" where
  "series_getitem s item =
     (case filter (\<lambda>(c, v). c = item) s of
        [] \<Rightarrow> Inl (KeyError item)
      | [(c, v)] \<Rightarrow> Inr (Float v)
      | cells \<Rightarrow> Inr (Series cells))"

subsection \<open>Column reductions\<close>

definition fmax :: "float64 \<Rightarrow> float64 \<Rightarrow> float64" where
  "fmax a b = (if fle a b then b else a)"

definition fmin :: "float64 \<Rightarrow> float64 \<Rightarrow> float64" where
  "fmin a b = (if fle b a then b else a)"

text \<open>
  \<^verbatim>\<open>DataFrame.max()\<close> and \<^verbatim>\<open>DataFrame.min()\<close> reduce every column with
  \<^verbatim>\<open>skipna=True\<close>: NaN cells are left out, and a column with no other cell (also a
  column without rows) reduces to NaN.
\<close>

definition nanmax :: "float64 list \<Rightarrow> float64" where
  "nanmax xs = (case filter (\<lambda>v. \<not> isnan v) xs of [] \<Rightarrow> NaN | y # ys \<Rightarrow> fold fmax ys y)"

definition nanmin :: "float64 list \<Rightarrow> float64" where
  "nanmin xs = (case filter (\<lambda>v. \<not> isnan v) xs of [] \<Rightarrow> NaN | y # ys \<Rightarrow> fold fmin ys y)"

definition df_max :: "dataframe \<Rightarrow> series" where
  "df_max df = map (\<lambda>(c, xs). (c, nanmax xs)) df"

definition df_min :: "dataframe \<Rightarrow> series" where
  "df_min df = map (\<lambda>(c, xs). (c, nanmin xs)) df"

subsection \<open>Arithmetic on frames\<close>

text \<open>
  \<^verbatim>\<open>series op series\<close> and \<^verbatim>\<open>frame op series\<close>: when the labels of both
  operands are equal, as lists, pandas works position by position, every cell of a column
  with the series' cell of that column.
\<close>

definition series_op ::
  "(float64 \<Rightarrow> float64 \<Rightarrow> float64) \<Rightarrow> series \<Rightarrow> series \<Rightarrow> error + series" where
  "series_op f s t =
     (if keys s = keys t then Inr (map (\<lambda>((c, a), (_, b)). (c, f a b)) (zip s t))
      else Inl NotAligned)"

definition frame_series_op ::
  "(float64 \<Rightarrow> float64 \<Rightarrow> float64) \<Rightarrow> dataframe \<Rightarrow> series \<Rightarrow> error + dataframe" where
  "frame_series_op f df s =
     (if columns df = keys s then Inr (map (\<lambda>((c, xs), (_, b)). (c, map (\<lambda>a. f a b) xs)) (zip df s))
      else Inl NotAligned)"

text \<open>\<^verbatim>\<open>frame op scalar\<close> and \<^verbatim>\<open>scalar op frame\<close> work on every cell.\<close>

definition frame_map :: "(float64 \<Rightarrow> float64) \<Rightarrow> dataframe \<Rightarrow> dataframe" where
  "frame_map g df = map (\<lambda>(c, xs). (c, map g xs)) df"

text \<open>
  The expression of lines 153 and 156,
  \<^verbatim>\<open>2 * (features - train_min) / (train_max - train_min) - 1\<close>,
  in Python's order of evaluation: the two differences, the product with 2, the
  quotient, and last the difference with 1.
\<close>

definition scale_frame :: "dataframe \<Rightarrow> series \<Rightarrow> series \<Rightarrow> error + dataframe" where
  "scale_frame features train_max train_min =
     (case frame_series_op fsub features train_min of
        Inl e \<Rightarrow> Inl e
      | Inr shifted \<Rightarrow>
          (case series_op fsub train_max train_min of
             Inl e \<Rightarrow> Inl e
           | Inr width \<Rightarrow>
               (case frame_series_op fdiv (frame_map (fmul (Fin 2)) shifted) width of
                  Inl e \<Rightarrow> Inl e
                | Inr q \<Rightarrow> Inr (frame_map (\<lambda>v. fsub v (Fin 1)) q))))"

section \<open>The data kitchen\<close>

text \<open>
  Of the data kitchen (\<^verbatim>\<open>FreqaiDataKitchen\<close>, a class of the host framework) the
  plugin reads and writes four attributes.  The record is extensible: everything else a
  kitchen holds lives in its \<open>more\<close> part.
\<close>

record 'a kitchen =
  data :: "'a pydict"
  data_dictionary :: "'a pydict"
  training_features_list :: "string list"
  do_predict :: "int list"

section \<open>normalize_data\<close>

text \<open>
  The loop of lines 159 to 161, over \<^verbatim>\<open>train_max.keys()\<close>: two writes into
  \<^verbatim>\<open>dk.data\<close> per label, the max first.
\<close>

fun store_stats :: "string list \<Rightarrow> series \<Rightarrow> series \<Rightarrow> 'a pydict \<Rightarrow> error + 'a pydict" where
  "store_stats [] train_max train_min store = Inr store"
| "store_stats (item # items) train_max train_min store =
     (case series_getitem train_max item of
        Inl e \<Rightarrow> Inl e
      | Inr mx \<Rightarrow>
          (case series_getitem train_min item of
             Inl e \<Rightarrow> Inl e
           | Inr mn \<Rightarrow>
               store_stats items train_max train_min
                 (store(item @ ''_max'' \<mapsto> mx, item @ ''_min'' \<mapsto> mn))))"

text \<open>
  A dictionary entry used as a feature matrix.  The arithmetic of pandas is modelled for
  frames only: on any other object the model stops with \<open>AttributeError\<close>.
\<close>

definition as_frame :: "'a pyobj \<Rightarrow> error + dataframe" where
  "as_frame v = (case v of DataFrame df \<Rightarrow> Inr df | _ \<Rightarrow> Inl AttributeError)"

definition getframe :: "'a pydict \<Rightarrow> string \<Rightarrow> error + dataframe" where
  "getframe d k = (case getitem d k of Inl e \<Rightarrow> Inl e | Inr v \<Rightarrow> as_frame v)"

text \<open>
  \<^verbatim>\<open>normalize_data(self, data_dictionary, dk)\<close>: the dictionary (\<open>dd\<close>) and the
  kitchen are mutated in place in the source and returned updated here.  Where a step
  raises, the result is the error alone, without the state as the steps before left it.
\<close>

definition normalize_data ::
  "'a pydict \<Rightarrow> ('a, 'b) kitchen_scheme \<Rightarrow> error + ('a pydict \<times> ('a, 'b) kitchen_scheme)" where
  "normalize_data dd dk =
     (case getframe dd ''train_features'' of
        Inl e \<Rightarrow> Inl e
      | Inr train_features \<Rightarrow>
          (let train_max = df_max train_features;
               train_min = df_min train_features
           in case scale_frame train_features train_max train_min of
                Inl e \<Rightarrow> Inl e
              | Inr train_scaled \<Rightarrow>
                  (let dd1 = dd(''train_features'' \<mapsto> DataFrame train_scaled)
                   in case getframe dd1 ''test_features'' of
                        Inl e \<Rightarrow> Inl e
                      | Inr test_features \<Rightarrow>
                          (case scale_frame test_features train_max train_min of
                             Inl e \<Rightarrow> Inl e
                           | Inr test_scaled \<Rightarrow>
                               (let dd2 = dd1(''test_features'' \<mapsto> DataFrame test_scaled)
                                in case store_stats (keys train_max) train_max train_min (data dk) of
                                     Inl e \<Rightarrow> Inl e
                                   | Inr store \<Rightarrow> Inr (dd2, dk\<lparr>data := store\<rparr>))))))"

text \<open>
  What lines 153 and 156 compute in one cell \<open>v\<close> of a column whose train statistics are
  \<open>lo\<close> and \<open>hi\<close>: \<^verbatim>\<open>2 * (v - min) / (max - min) - 1\<close>.
\<close>

definition rescale :: "float64 \<Rightarrow> float64 \<Rightarrow> float64 \<Rightarrow> float64" where
  "rescale lo hi v = fsub (fdiv (fmul (Fin 2) (fsub v lo)) (fsub hi lo)) (Fin 1)"

section \<open>Rounding to binary64\<close>

text \<open>
  The operations of the first section are exact on finite operands.  Binary64 returns,
  for every operation, the binary64 number nearest to the exact result, the one with the
  even significand where two are equally near, and an infinity when the rounded magnitude
  reaches \<open>2^1024\<close>.  That rounding is \<open>round64\<close>, and \<open>fsub64\<close>, \<open>fmul64\<close> and
  \<open>fdiv64\<close> are the operations of binary64: the exact result, rounded.
\<close>

text \<open>The integer nearest to \<open>t\<close>, the even one in a tie.\<close>

definition rne :: "real \<Rightarrow> int" where
  "rne t = (let f = \<lfloor>t\<rfloor>; r = t - of_int f
            in if r < 1/2 then f else if 1/2 < r then f + 1 else if even f then f else f + 1)"

text \<open>
  The exponent of a magnitude \<open>a\<close>: the \<open>e\<close> with \<open>2^e \<le> a < 2^(e+1)\<close>, found by
  doubling or halving \<open>a\<close> until it lies between 1 and 2.  The first argument bounds the
  number of steps; 1024 of them reach every magnitude from \<open>2^-1022\<close> up to \<open>2^1024\<close>
  (lemma \<open>exponent64_bounds\<close>).  Below \<open>2^-1022\<close> the numbers of binary64 are subnormal
  and share the exponent \<open>-1022\<close>.
\<close>

fun expo :: "nat \<Rightarrow> real \<Rightarrow> int" where
  "expo 0 a = 0"
| "expo (Suc n) a =
     (if a < 1 then expo n (2 * a) - 1 else if 2 \<le> a then expo n (a / 2) + 1 else 0)"

definition exponent64 :: "real \<Rightarrow> int" where
  "exponent64 a = (if a < 2 powi (- 1022) then - 1022 else expo 1024 a)"

text \<open>The distance between neighbouring binary64 numbers at \<open>a\<close>: 52 bits below the exponent.\<close>

definition quantum64 :: "real \<Rightarrow> real" where
  "quantum64 a = 2 powi (exponent64 a - 52)"

definition round_magnitude :: "real \<Rightarrow> real" where
  "round_magnitude a = of_int (rne (a / quantum64 a)) * quantum64 a"

definition round64 :: "real \<Rightarrow> float64" where
  "round64 x =
     (if 2 ^ 1024 \<le> \<bar>x\<bar> \<or> 2 ^ 1024 \<le> round_magnitude \<bar>x\<bar> then signed_inf x
      else Fin (sgn x * round_magnitude \<bar>x\<bar>))"


definition b64 :: "float64 \<Rightarrow> float64" where
  "b64 x = (case x of Fin r \<Rightarrow> round64 r | _ \<Rightarrow> x)"





section \<open>Applying stored parameters\<close>

definition as_float :: "'a pyobj \<Rightarrow> error + float64" where
  "as_float v = (case v of Float x \<Rightarrow> Inr x | _ \<Rightarrow> Inl TypeError)"

text \<open>
  Modelled from the spec: \<^verbatim>\<open>dk.normalize_data_from_metadata\<close>, a method of the host
  framework's data kitchen that line 128 calls and whose code is not part of this
  repository.  The specification (4.1, apply-from-stored-parameters) has it take a raw
  feature matrix and the parameters persisted under \<^verbatim>\<open><column>_min\<close> and
  \<^verbatim>\<open><column>_max\<close>, apply the same affine transform to every column with the stored
  pair, and fail when a column's parameters are absent.
\<close>

fun normalize_data_from_metadata :: "'a pydict \<Rightarrow> dataframe \<Rightarrow> error + dataframe" where
  "normalize_data_from_metadata store [] = Inr []"
| "normalize_data_from_metadata store ((item, xs) # df) =
     (case getitem store (item @ ''_min'') of
        Inl e \<Rightarrow> Inl e
      | Inr lo_obj \<Rightarrow>
          (case as_float lo_obj of
             Inl e \<Rightarrow> Inl e
           | Inr lo \<Rightarrow>
               (case getitem store (item @ ''_max'') of
                  Inl e \<Rightarrow> Inl e
                | Inr hi_obj \<Rightarrow>
                    (case as_float hi_obj of
                       Inl e \<Rightarrow> Inl e
                     | Inr hi \<Rightarrow>
                         (case normalize_data_from_metadata store df of
                            Inl e \<Rightarrow> Inl e
                          | Inr rest \<Rightarrow> Inr ((item, map (rescale lo hi) xs) # rest))))))"

section \<open>fit\<close>

text \<open>
  The classifier is catboost's, a library.  Of \<^verbatim>\<open>CatBoostClassifier(...)\<close> the model
  keeps the keyword arguments of line 100, of \<^verbatim>\<open>clf.fit(...)\<close> those of line 105;
  what the library does with them is the parameter \<open>catboost_fit\<close>, which returns the
  fitted classifier or the error it raises.
\<close>

record catboost_params =
  allow_writing_files :: bool
  loss_function :: string
  early_stopping_rounds :: nat

record 'a fit_args =
  fit_X :: "'a pyobj"
  fit_y :: "'a pyobj"
  fit_sample_weight :: "'a pyobj"
  fit_eval_set :: "'a pyobj \<times> 'a pyobj"

definition fit ::
  "(catboost_params \<Rightarrow> 'a fit_args \<Rightarrow> error + 'm) \<Rightarrow> 'a pydict \<Rightarrow> error + 'm" where
  "fit catboost_fit dd =
     (case getitem dd ''train_features'' of
        Inl e \<Rightarrow> Inl e
      | Inr X_test \<Rightarrow>
     (case getitem dd ''train_labels'' of
        Inl e \<Rightarrow> Inl e
      | Inr y_test \<Rightarrow>
     (case getitem dd ''test_features'' of
        Inl e \<Rightarrow> Inl e
      | Inr X_train \<Rightarrow>
     (case getitem dd ''test_labels'' of
        Inl e \<Rightarrow> Inl e
      | Inr y_train \<Rightarrow>
     (case getitem dd ''test_weights'' of
        Inl e \<Rightarrow> Inl e
      | Inr sample_weight \<Rightarrow>
          catboost_fit
            \<lparr>allow_writing_files = False, loss_function = ''MultiClass'',
             early_stopping_rounds = 10\<rparr>
            \<lparr>fit_X = X_train, fit_y = y_train, fit_sample_weight = sample_weight,
             fit_eval_set = (X_test, y_test)\<rparr>)))))"

section \<open>predict\<close>

text \<open>
  \<^verbatim>\<open>DataFrame(predictions, columns=labels)\<close> on a two-dimensional array, given as the
  list of its rows: one column per label, in order, holding that position of every row;
  \<open>ValueError\<close> when the rows are not as long as the labels are many.  An array without
  rows is taken to have as many columns as there are labels.
\<close>

fun array_columns :: "string list \<Rightarrow> float64 list list \<Rightarrow> dataframe" where
  "array_columns [] rows = []"
| "array_columns (c # cs) rows = (c, map hd rows) # array_columns cs (map tl rows)"

definition new_DataFrame :: "float64 list list \<Rightarrow> string list \<Rightarrow> error + dataframe" where
  "new_DataFrame rows labels =
     (if list_all (\<lambda>r. length r = length labels) rows then Inr (array_columns labels rows)
      else Inl ValueError)"

definition frame_row :: "dataframe \<Rightarrow> nat \<Rightarrow> float64 list" where
  "frame_row df i = map (\<lambda>(c, xs). xs ! i) df"

text \<open>
  The methods \<^verbatim>\<open>predict\<close> calls and whose code is not in this repository: four of the
  host framework (three of the data kitchen, and \<^verbatim>\<open>data_cleaning_predict\<close>, inherited
  from \<^verbatim>\<open>IFreqaiModel\<close>) and two of the fitted classifier.  Each is a parameter: it
  takes the kitchen and returns it, changed or not, or raises.  \<open>'r\<close> is the type of the
  unfiltered dataframe, \<open>'l\<close> of the labels that \<^verbatim>\<open>filter_features\<close> returns besides
  the features, \<open>'m\<close> of the fitted classifier.  The boolean of \<open>dk_filter_features\<close> is
  its keyword argument \<^verbatim>\<open>training_filter\<close>.
\<close>

record ('a, 'b, 'r, 'l, 'm) host =
  dk_find_features ::
    "'r \<Rightarrow> ('a, 'b) kitchen_scheme \<Rightarrow> error + ('a, 'b) kitchen_scheme"
  dk_filter_features ::
    "'r \<Rightarrow> string list \<Rightarrow> bool \<Rightarrow> ('a, 'b) kitchen_scheme
       \<Rightarrow> error + ((dataframe \<times> 'l) \<times> ('a, 'b) kitchen_scheme)"
  dk_normalize_data_from_metadata ::
    "dataframe \<Rightarrow> ('a, 'b) kitchen_scheme \<Rightarrow> error + (dataframe \<times> ('a, 'b) kitchen_scheme)"
  self_data_cleaning_predict ::
    "('a, 'b) kitchen_scheme \<Rightarrow> dataframe \<Rightarrow> error + ('a, 'b) kitchen_scheme"
  model_predict_proba :: "'m \<Rightarrow> 'a pyobj \<Rightarrow> error + float64 list list"
  model_classes :: "'m \<Rightarrow> string list"

text \<open>
  \<^verbatim>\<open>predict(self, unfiltered_dataframe, dk, first)\<close>, lines 124 to 139.  Its state is
  the kitchen and the console, the list of the frames printed so far; both are returned
  with the result.
\<close>

definition predict ::
  "('a, 'b, 'r, 'l, 'm) host \<Rightarrow> 'm \<Rightarrow> 'r \<Rightarrow> ('a, 'b) kitchen_scheme \<Rightarrow> bool \<Rightarrow> dataframe list
     \<Rightarrow> error + ((dataframe \<times> int list) \<times> ('a, 'b) kitchen_scheme \<times> dataframe list)" where
  "predict host model unfiltered_dataframe dk first console =
     (case dk_find_features host unfiltered_dataframe dk of
        Inl e \<Rightarrow> Inl e
      | Inr dk1 \<Rightarrow>
     (case dk_filter_features host unfiltered_dataframe (training_features_list dk1) False dk1 of
        Inl e \<Rightarrow> Inl e
      | Inr ((filtered_dataframe, _), dk2) \<Rightarrow>
     (case dk_normalize_data_from_metadata host filtered_dataframe dk2 of
        Inl e \<Rightarrow> Inl e
      | Inr (normalized, dk3) \<Rightarrow>
          (let dk4 = dk3\<lparr>data_dictionary :=
                          (data_dictionary dk3)(''prediction_features'' \<mapsto> DataFrame normalized)\<rparr>
           in case self_data_cleaning_predict host dk4 normalized of
                Inl e \<Rightarrow> Inl e
              | Inr dk5 \<Rightarrow>
             (case getitem (data_dictionary dk5) ''prediction_features'' of
                Inl e \<Rightarrow> Inl e
              | Inr features \<Rightarrow>
             (case model_predict_proba host model features of
                Inl e \<Rightarrow> Inl e
              | Inr predictions \<Rightarrow>
             (case new_DataFrame predictions (model_classes host model) of
                Inl e \<Rightarrow> Inl e
              | Inr pred_df \<Rightarrow>
                  Inr ((pred_df, do_predict dk5), dk5, console @ [pred_df]))))))))"

section \<open>return_values\<close>

text \<open>
  \<^verbatim>\<open>return_values(self, dataframe)\<close>, line 27.  The plugin instance is passed and
  returned, so that what the method does to it can be stated.
\<close>

definition return_values :: "'s \<Rightarrow> 'd \<Rightarrow> 'd \<times> 's" where
  "return_values self dataframe = (dataframe, self)"

section \<open>Frame arithmetic, cell by cell\<close>

lemma map_fst_zip_left:
  "length xs = length ys \<Longrightarrow> map (\<lambda>p. fst (fst p)) (zip xs ys) = map fst xs"
  by (induction xs ys rule: list_induct2) simp_all

lemma frame_series_op_Inr:
  "columns df = keys s \<Longrightarrow>
   frame_series_op f df s =
     Inr (map (\<lambda>p. (fst (fst p), map (\<lambda>a. f a (snd (snd p))) (snd (fst p)))) (zip df s))"
  by (simp add: frame_series_op_def case_prod_beta)

lemma series_op_Inr:
  "keys s = keys t \<Longrightarrow>
   series_op f s t = Inr (map (\<lambda>p. (fst (fst p), f (snd (fst p)) (snd (snd p)))) (zip s t))"
  by (simp add: series_op_def case_prod_beta)

lemma frame_map_eq: "frame_map g df = map (\<lambda>p. (fst p, map g (snd p))) df"
  by (simp add: frame_map_def case_prod_beta)

lemma keys_length: "keys s = keys t \<Longrightarrow> length s = length t"
  unfolding keys_def by (metis length_map)

lemma columns_keys_length: "columns df = keys t \<Longrightarrow> length df = length t"
  unfolding keys_def columns_def by (metis length_map)

lemma scale_cells_list:
  assumes "length F = length mx" "length mx = length mn"
  shows "map (\<lambda>p. (fst p, map (\<lambda>v. fsub v (Fin 1)) (snd p)))
          (map (\<lambda>p. (fst (fst p), map (\<lambda>a. fdiv a (snd (snd p))) (snd (fst p))))
            (zip (map (\<lambda>p. (fst p, map (fmul (Fin 2)) (snd p)))
                    (map (\<lambda>p. (fst (fst p), map (\<lambda>a. fsub a (snd (snd p))) (snd (fst p)))) (zip F mn)))
                 (map (\<lambda>p. (fst (fst p), fsub (snd (fst p)) (snd (snd p)))) (zip mx mn))))
        = map (\<lambda>p. (fst (fst p), map (rescale (snd (snd (snd p))) (snd (fst (snd p)))) (snd (fst p))))
            (zip F (zip mx mn))"
  using assms by (induction F mx mn rule: list_induct3) (simp_all add: rescale_def)

lemma scale_frame_cells:
  assumes cols: "columns features = keys mx" and ks: "keys mx = keys mn"
  shows "scale_frame features mx mn =
    Inr (map (\<lambda>p. (fst (fst p), map (rescale (snd (snd (snd p))) (snd (fst (snd p)))) (snd (fst p))))
           (zip features (zip mx mn)))"
proof -
  have l1: "length features = length mx" using cols by (rule columns_keys_length)
  have l2: "length mx = length mn" using ks by (rule keys_length)
  have c1: "columns features = keys mn" using cols ks by simp
  let ?shifted = "map (\<lambda>p. (fst (fst p), map (\<lambda>a. fsub a (snd (snd p))) (snd (fst p)))) (zip features mn)"
  let ?width = "map (\<lambda>p. (fst (fst p), fsub (snd (fst p)) (snd (snd p)))) (zip mx mn)"
  have s1: "frame_series_op fsub features mn = Inr ?shifted"
    using c1 by (rule frame_series_op_Inr)
  have s2: "series_op fsub mx mn = Inr ?width"
    using ks by (rule series_op_Inr)
  have k1: "columns (frame_map (fmul (Fin 2)) ?shifted) = columns features"
    using l1 l2 by (simp add: frame_map_eq columns_def comp_def map_fst_zip_left)
  have k2: "keys ?width = keys mx"
    using l2 by (simp add: keys_def comp_def map_fst_zip_left)
  have s3: "frame_series_op fdiv (frame_map (fmul (Fin 2)) ?shifted) ?width =
     Inr (map (\<lambda>p. (fst (fst p), map (\<lambda>a. fdiv a (snd (snd p))) (snd (fst p))))
            (zip (frame_map (fmul (Fin 2)) ?shifted) ?width))"
    by (rule frame_series_op_Inr) (simp only: k1 k2 cols)
  show ?thesis
    unfolding scale_frame_def s1 s2 sum.case s3
    by (simp only: frame_map_eq scale_cells_list [OF l1 l2])
qed

lemma keys_df_max: "keys (df_max tr) = columns tr"
  by (simp add: keys_def df_max_def columns_def comp_def case_prod_beta)

lemma keys_df_min: "keys (df_min tr) = columns tr"
  by (simp add: keys_def df_min_def columns_def comp_def case_prod_beta)

lemma zip_stats:
  "length F = length tr \<Longrightarrow>
   map (\<lambda>p. (fst (fst p), map (rescale (snd (snd (snd p))) (snd (fst (snd p)))) (snd (fst p))))
     (zip F (zip (df_max tr) (df_min tr)))
   = map (\<lambda>((c, ys), (_, xs)). (c, map (rescale (nanmin xs) (nanmax xs)) ys)) (zip F tr)"
  by (induction F tr rule: list_induct2) (simp_all add: df_max_def df_min_def case_prod_beta)

lemma scale_frame_by_train:
  assumes "columns features = columns tr"
  shows "scale_frame features (df_max tr) (df_min tr) =
    Inr (map (\<lambda>((c, ys), (_, xs)). (c, map (rescale (nanmin xs) (nanmax xs)) ys)) (zip features tr))"
proof -
  have len: "length features = length tr"
    using assms unfolding columns_def by (metis length_map)
  have "scale_frame features (df_max tr) (df_min tr) =
    Inr (map (\<lambda>p. (fst (fst p), map (rescale (snd (snd (snd p))) (snd (fst (snd p)))) (snd (fst p))))
           (zip features (zip (df_max tr) (df_min tr))))"
    by (rule scale_frame_cells) (simp_all add: keys_df_max keys_df_min assms)
  then show ?thesis by (simp only: zip_stats [OF len])
qed

lemma zip_same: "zip xs xs = map (\<lambda>x. (x, x)) xs"
  by (induction xs) simp_all

lemma scale_frame_train:
  "scale_frame tr (df_max tr) (df_min tr) =
    Inr (map (\<lambda>(c, xs). (c, map (rescale (nanmin xs) (nanmax xs)) xs)) tr)"
  by (simp add: scale_frame_by_train zip_same comp_def case_prod_beta)

section \<open>The parameter store\<close>

lemma filter_label_distinct:
  "distinct (map fst s) \<Longrightarrow> (item, v) \<in> set s \<Longrightarrow> filter (\<lambda>(c, v). c = item) s = [(item, v)]"
proof (induction s)
  case Nil
  then show ?case by simp
next
  case (Cons p s)
  show ?case
  proof (cases "fst p = item")
    case True
    with Cons.prems have "p = (item, v)"
      by (cases p) (auto simp: image_iff)
    moreover from Cons.prems True have "filter (\<lambda>(c, v). c = item) s = []"
      by (auto simp: filter_empty_conv image_iff)
    ultimately show ?thesis by simp
  next
    case False
    with Cons show ?thesis by (cases p) auto
  qed
qed

lemma series_getitem_distinct:
  "distinct (keys s) \<Longrightarrow> (item, v) \<in> set s \<Longrightarrow> series_getitem s item = Inr (Float v)"
  by (simp add: series_getitem_def keys_def filter_label_distinct)

lemma series_getitem_present:
  assumes "item \<in> set (keys s)"
  shows "\<exists>obj. series_getitem s item = Inr obj"
proof -
  from assms obtain v where "(item, v) \<in> set s" by (auto simp: keys_def)
  then have "filter (\<lambda>(c, v). c = item) s \<noteq> []" by (auto simp: filter_empty_conv)
  then show ?thesis
    by (auto simp: series_getitem_def split: list.splits)
qed

lemma store_stats_returns:
  "set items \<subseteq> set (keys mx) \<Longrightarrow> set items \<subseteq> set (keys mn) \<Longrightarrow>
   \<exists>store'. store_stats items mx mn store = Inr store'"
proof (induction items arbitrary: store)
  case Nil
  then show ?case by simp
next
  case (Cons item items)
  from Cons.prems obtain a where a: "series_getitem mx item = (Inr a :: error + 'a pyobj)"
    using series_getitem_present [of item mx] by auto
  from Cons.prems obtain b where b: "series_getitem mn item = (Inr b :: error + 'a pyobj)"
    using series_getitem_present [of item mn] by auto
  from Cons.prems have "set items \<subseteq> set (keys mx)" "set items \<subseteq> set (keys mn)" by auto
  from Cons.IH [OF this] show ?case by (simp add: a b)
qed

lemma df_max_mem: "(c, xs) \<in> set tr \<Longrightarrow> (c, nanmax xs) \<in> set (df_max tr)"
  by (force simp: df_max_def)

lemma df_min_mem: "(c, xs) \<in> set tr \<Longrightarrow> (c, nanmin xs) \<in> set (df_min tr)"
  by (force simp: df_min_def)

lemma store_stats_train:
  assumes "distinct (columns tr)" "set items \<subseteq> set (columns tr)"
  shows "\<exists>store'. store_stats items (df_max tr) (df_min tr) store = Inr store' \<and>
     (\<forall>c xs. c \<in> set items \<longrightarrow> (c, xs) \<in> set tr \<longrightarrow>
        store' (c @ ''_min'') = Some (Float (nanmin xs)) \<and>
        store' (c @ ''_max'') = Some (Float (nanmax xs))) \<and>
     (\<forall>k. (\<forall>c \<in> set items. k \<noteq> c @ ''_min'' \<and> k \<noteq> c @ ''_max'') \<longrightarrow> store' k = store k)"
  using assms(2)
proof (induction items arbitrary: store)
  case Nil
  then show ?case by simp
next
  case (Cons item items)
  from Cons.prems obtain ys where ys: "(item, ys) \<in> set tr"
    by (auto simp: columns_def)
  have gmax: "series_getitem (df_max tr) item = (Inr (Float (nanmax ys)) :: error + 'a pyobj)"
    using assms(1) ys by (intro series_getitem_distinct) (simp_all add: keys_df_max df_max_mem)
  have gmin: "series_getitem (df_min tr) item = (Inr (Float (nanmin ys)) :: error + 'a pyobj)"
    using assms(1) ys by (intro series_getitem_distinct) (simp_all add: keys_df_min df_min_mem)
  let ?st = "store(item @ ''_max'' \<mapsto> Float (nanmax ys), item @ ''_min'' \<mapsto> Float (nanmin ys))"
  from Cons.prems have sub: "set items \<subseteq> set (columns tr)" by simp
  from Cons.IH [OF sub, of ?st] obtain store' where
    run: "store_stats items (df_max tr) (df_min tr) ?st = Inr store'"
    and hit: "\<And>c xs. c \<in> set items \<Longrightarrow> (c, xs) \<in> set tr \<Longrightarrow>
        store' (c @ ''_min'') = Some (Float (nanmin xs)) \<and>
        store' (c @ ''_max'') = Some (Float (nanmax xs))"
    and miss: "\<And>k. (\<forall>c \<in> set items. k \<noteq> c @ ''_min'' \<and> k \<noteq> c @ ''_max'') \<Longrightarrow> store' k = ?st k"
    by blast
  have uniq: "\<And>xs. (item, xs) \<in> set tr \<Longrightarrow> xs = ys"
    using assms(1) ys unfolding columns_def by (meson eq_key_imp_eq_value)
  have here: "store' (item @ ''_min'') = Some (Float (nanmin ys)) \<and>
              store' (item @ ''_max'') = Some (Float (nanmax ys))"
  proof (cases "item \<in> set items")
    case True
    then show ?thesis using hit ys by blast
  next
    case False
    then have n1: "\<forall>c \<in> set items. item @ ''_min'' \<noteq> c @ ''_min'' \<and> item @ ''_min'' \<noteq> c @ ''_max''"
      and n2: "\<forall>c \<in> set items. item @ ''_max'' \<noteq> c @ ''_min'' \<and> item @ ''_max'' \<noteq> c @ ''_max''"
      by auto
    have "store' (item @ ''_min'') = ?st (item @ ''_min'')"
      using n1 by (rule miss)
    moreover have "store' (item @ ''_max'') = ?st (item @ ''_max'')"
      using n2 by (rule miss)
    ultimately show ?thesis by simp
  qed
  have "store_stats (item # items) (df_max tr) (df_min tr) store = Inr store'"
    by (simp add: gmax gmin run)
  moreover have "\<forall>c xs. c \<in> set (item # items) \<longrightarrow> (c, xs) \<in> set tr \<longrightarrow>
        store' (c @ ''_min'') = Some (Float (nanmin xs)) \<and>
        store' (c @ ''_max'') = Some (Float (nanmax xs))"
    using hit here uniq by auto
  moreover have "\<forall>k. (\<forall>c \<in> set (item # items). k \<noteq> c @ ''_min'' \<and> k \<noteq> c @ ''_max'') \<longrightarrow> store' k = store k"
    using miss by simp
  ultimately show ?case by blast
qed

section \<open>What normalize_data returns\<close>

lemma getframe_Some: "d k = Some (DataFrame df) \<Longrightarrow> getframe d k = Inr df"
  by (simp add: getframe_def getitem_def as_frame_def)

lemma getframe_Inr: "getframe d k = Inr df \<Longrightarrow> d k = Some (DataFrame df)"
  by (auto simp: getframe_def getitem_def as_frame_def split: option.splits pyobj.splits)

lemma normalize_data_Inr:
  assumes "normalize_data dd dk = Inr (dd', dk')"
  shows "\<exists>tr te a b store'.
     dd ''train_features'' = Some (DataFrame tr) \<and> dd ''test_features'' = Some (DataFrame te) \<and>
     scale_frame tr (df_max tr) (df_min tr) = Inr a \<and>
     scale_frame te (df_max tr) (df_min tr) = Inr b \<and>
     store_stats (columns tr) (df_max tr) (df_min tr) (data dk) = Inr store' \<and>
     dd' = dd(''train_features'' \<mapsto> DataFrame a, ''test_features'' \<mapsto> DataFrame b) \<and>
     dk' = dk\<lparr>data := store'\<rparr>"
proof -
  from assms obtain tr where tr: "getframe dd ''train_features'' = Inr tr"
    by (auto simp: normalize_data_def split: sum.splits)
  from assms tr obtain a where a: "scale_frame tr (df_max tr) (df_min tr) = Inr a"
    by (auto simp: normalize_data_def Let_def split: sum.splits)
  let ?dd1 = "dd(''train_features'' \<mapsto> DataFrame a)"
  from assms tr a obtain te where te: "getframe ?dd1 ''test_features'' = Inr te"
    by (auto simp: normalize_data_def Let_def split: sum.splits)
  from assms tr a te obtain b where b: "scale_frame te (df_max tr) (df_min tr) = Inr b"
    by (auto simp: normalize_data_def Let_def split: sum.splits)
  from assms tr a te b obtain store' where
    st: "store_stats (keys (df_max tr)) (df_max tr) (df_min tr) (data dk) = Inr store'"
    by (auto simp: normalize_data_def Let_def split: sum.splits)
  from assms tr a te b st have res: "dd' = ?dd1(''test_features'' \<mapsto> DataFrame b)" "dk' = dk\<lparr>data := store'\<rparr>"
    by (auto simp: normalize_data_def Let_def)
  from te have "dd ''test_features'' = Some (DataFrame te)"
    by (auto dest!: getframe_Inr split: if_splits)
  with tr a b st res show ?thesis
    by (auto dest!: getframe_Inr simp: keys_df_max)
qed

lemma normalize_data_run:
  assumes tr: "dd ''train_features'' = Some (DataFrame tr)"
    and te: "dd ''test_features'' = Some (DataFrame te)"
    and a: "scale_frame tr (df_max tr) (df_min tr) = Inr a"
    and b: "scale_frame te (df_max tr) (df_min tr) = Inr b"
    and st: "store_stats (columns tr) (df_max tr) (df_min tr) (data dk) = Inr store'"
  shows "normalize_data dd dk =
     Inr (dd(''train_features'' \<mapsto> DataFrame a, ''test_features'' \<mapsto> DataFrame b), dk\<lparr>data := store'\<rparr>)"
proof -
  have g1: "getframe dd ''train_features'' = Inr tr" using tr by (rule getframe_Some)
  have g2: "getframe (dd(''train_features'' \<mapsto> DataFrame a)) ''test_features'' = Inr te"
    using te by (intro getframe_Some) simp
  show ?thesis
    by (simp add: normalize_data_def g1 a Let_def g2 b keys_df_max st)
qed

lemma normalize_data_aligned:
  assumes "dd ''train_features'' = Some (DataFrame tr)"
    and "dd ''test_features'' = Some (DataFrame te)"
    and "columns te = columns tr"
  shows "\<exists>store'. store_stats (columns tr) (df_max tr) (df_min tr) (data dk) = Inr store' \<and>
     normalize_data dd dk =
     Inr (dd(''train_features'' \<mapsto>
               DataFrame (map (\<lambda>(c, xs). (c, map (rescale (nanmin xs) (nanmax xs)) xs)) tr),
             ''test_features'' \<mapsto>
               DataFrame (map (\<lambda>((c, ys), (_, xs)). (c, map (rescale (nanmin xs) (nanmax xs)) ys))
                            (zip te tr))),
          dk\<lparr>data := store'\<rparr>)"
proof -
  obtain store' where st: "store_stats (columns tr) (df_max tr) (df_min tr) (data dk) = Inr store'"
    using store_stats_returns [of "columns tr" "df_max tr" "df_min tr" "data dk"]
    by (auto simp: keys_df_max keys_df_min)
  from normalize_data_run [OF assms(1,2) scale_frame_train scale_frame_by_train [OF assms(3)] st] st
  show ?thesis by blast
qed

section \<open>The order of the values, and column minima and maxima\<close>

lemma fle_refl: "a \<noteq> NaN \<Longrightarrow> fle a a"
  by (cases a) simp_all

lemma fle_trans: "fle a b \<Longrightarrow> fle b c \<Longrightarrow> fle a c"
  by (cases a; cases b; cases c) simp_all

lemma fle_total: "a \<noteq> NaN \<Longrightarrow> b \<noteq> NaN \<Longrightarrow> fle a b \<or> fle b a"
  by (cases a; cases b) auto

lemma fle_antisym: "fle a b \<Longrightarrow> fle b a \<Longrightarrow> a = b"
  by (cases a; cases b) simp_all


lemma fold_fmax_upper:
  "y \<noteq> NaN \<Longrightarrow> NaN \<notin> set ys \<Longrightarrow>
   fle y (fold fmax ys y) \<and> (\<forall>v \<in> set ys. fle v (fold fmax ys y))"
proof (induction ys arbitrary: y)
  case Nil
  then show ?case by (simp add: fle_refl)
next
  case (Cons a ys)
  then have a: "a \<noteq> NaN" and ys: "NaN \<notin> set ys" by auto
  have m: "fmax a y \<noteq> NaN" using Cons.prems(1) a by (simp add: fmax_def)
  have ya: "fle y (fmax a y)" "fle a (fmax a y)"
    using fle_total [OF Cons.prems(1) a] Cons.prems(1) a by (auto simp: fmax_def fle_refl)
  from Cons.IH [OF m ys] ya show ?case
    by (auto intro: fle_trans)
qed

lemma fold_fmin_lower:
  "y \<noteq> NaN \<Longrightarrow> NaN \<notin> set ys \<Longrightarrow>
   fle (fold fmin ys y) y \<and> (\<forall>v \<in> set ys. fle (fold fmin ys y) v)"
proof (induction ys arbitrary: y)
  case Nil
  then show ?case by (simp add: fle_refl)
next
  case (Cons a ys)
  then have a: "a \<noteq> NaN" and ys: "NaN \<notin> set ys" by auto
  have m: "fmin a y \<noteq> NaN" using Cons.prems(1) a by (simp add: fmin_def)
  have ya: "fle (fmin a y) y" "fle (fmin a y) a"
    using fle_total [OF Cons.prems(1) a] Cons.prems(1) a by (auto simp: fmin_def fle_refl)
  from Cons.IH [OF m ys] ya show ?case
    by (auto intro: fle_trans)
qed

lemma nanmax_upper: "v \<in> set xs \<Longrightarrow> v \<noteq> NaN \<Longrightarrow> fle v (nanmax xs)"
proof -
  assume v: "v \<in> set xs" "v \<noteq> NaN"
  then have mem: "v \<in> set (filter (\<lambda>v. \<not> isnan v) xs)" by (simp add: isnan_def)
  then obtain y ys where f: "filter (\<lambda>v. \<not> isnan v) xs = y # ys"
    by (cases "filter (\<lambda>v. \<not> isnan v) xs") auto
  have "NaN \<notin> set (filter (\<lambda>v. \<not> isnan v) xs)" by (simp add: isnan_def)
  with f have "y \<noteq> NaN" "NaN \<notin> set ys" by auto
  from fold_fmax_upper [OF this] mem f show ?thesis
    by (auto simp: nanmax_def)
qed

lemma nanmin_lower: "v \<in> set xs \<Longrightarrow> v \<noteq> NaN \<Longrightarrow> fle (nanmin xs) v"
proof -
  assume v: "v \<in> set xs" "v \<noteq> NaN"
  then have mem: "v \<in> set (filter (\<lambda>v. \<not> isnan v) xs)" by (simp add: isnan_def)
  then obtain y ys where f: "filter (\<lambda>v. \<not> isnan v) xs = y # ys"
    by (cases "filter (\<lambda>v. \<not> isnan v) xs") auto
  have "NaN \<notin> set (filter (\<lambda>v. \<not> isnan v) xs)" by (simp add: isnan_def)
  with f have "y \<noteq> NaN" "NaN \<notin> set ys" by auto
  from fold_fmin_lower [OF this] mem f show ?thesis
    by (auto simp: nanmin_def)
qed

lemma fold_fmax_mem: "fold fmax ys y \<in> set (y # ys)"
proof (induction ys arbitrary: y)
  case Nil
  show ?case by simp
next
  case (Cons a ys)
  have "fmax a y = a \<or> fmax a y = y" by (simp add: fmax_def)
  with Cons [of "fmax a y"] show ?case by auto
qed

lemma fold_fmin_mem: "fold fmin ys y \<in> set (y # ys)"
proof (induction ys arbitrary: y)
  case Nil
  show ?case by simp
next
  case (Cons a ys)
  have "fmin a y = a \<or> fmin a y = y" by (simp add: fmin_def)
  with Cons [of "fmin a y"] show ?case by auto
qed

lemma nanmax_mem: "v \<in> set xs \<Longrightarrow> v \<noteq> NaN \<Longrightarrow> nanmax xs \<in> set xs \<and> nanmax xs \<noteq> NaN"
proof -
  assume v: "v \<in> set xs" "v \<noteq> NaN"
  then have "v \<in> set (filter (\<lambda>v. \<not> isnan v) xs)" by (simp add: isnan_def)
  then obtain y ys where f: "filter (\<lambda>v. \<not> isnan v) xs = y # ys"
    by (cases "filter (\<lambda>v. \<not> isnan v) xs") auto
  have "fold fmax ys y \<in> set (filter (\<lambda>v. \<not> isnan v) xs)"
    unfolding f by (rule fold_fmax_mem)
  then have "fold fmax ys y \<in> set xs \<and> fold fmax ys y \<noteq> NaN" by (simp add: isnan_def)
  moreover have "nanmax xs = fold fmax ys y" by (simp add: nanmax_def f)
  ultimately show ?thesis by simp
qed

lemma nanmin_mem: "v \<in> set xs \<Longrightarrow> v \<noteq> NaN \<Longrightarrow> nanmin xs \<in> set xs \<and> nanmin xs \<noteq> NaN"
proof -
  assume v: "v \<in> set xs" "v \<noteq> NaN"
  then have "v \<in> set (filter (\<lambda>v. \<not> isnan v) xs)" by (simp add: isnan_def)
  then obtain y ys where f: "filter (\<lambda>v. \<not> isnan v) xs = y # ys"
    by (cases "filter (\<lambda>v. \<not> isnan v) xs") auto
  have "fold fmin ys y \<in> set (filter (\<lambda>v. \<not> isnan v) xs)"
    unfolding f by (rule fold_fmin_mem)
  then have "fold fmin ys y \<in> set xs \<and> fold fmin ys y \<noteq> NaN" by (simp add: isnan_def)
  moreover have "nanmin xs = fold fmin ys y" by (simp add: nanmin_def f)
  ultimately show ?thesis by simp
qed

lemma nanmax_all_nan: "\<forall>v \<in> set xs. v = NaN \<Longrightarrow> nanmax xs = NaN"
proof -
  assume "\<forall>v \<in> set xs. v = NaN"
  then have "filter (\<lambda>v. \<not> isnan v) xs = []" by (auto simp: filter_empty_conv isnan_def)
  then show ?thesis by (simp add: nanmax_def)
qed

lemma nanmin_all_nan: "\<forall>v \<in> set xs. v = NaN \<Longrightarrow> nanmin xs = NaN"
proof -
  assume "\<forall>v \<in> set xs. v = NaN"
  then have "filter (\<lambda>v. \<not> isnan v) xs = []" by (auto simp: filter_empty_conv isnan_def)
  then show ?thesis by (simp add: nanmin_def)
qed

section \<open>The statistics are those of the train matrix\<close>

text \<open>
  Claim C1.  When the train and the test feature matrix carry the same column labels,
  \<open>normalize_data\<close> returns, and in the dictionary it returns every cell \<open>v\<close> of a
  train column is \<open>2 * (v - min) / (max - min) - 1\<close>, and every cell of a test column is
  the same expression with the \<open>min\<close> and \<open>max\<close> of the train column at its position.
  Here \<open>min\<close> and \<open>max\<close> are the statistics of the train column alone: cells of that
  column, the least and the greatest of its cells other than NaN, and NaN when it has no
  such cell.  Nothing is computed from the held-out data.
\<close>

theorem normalize_data_uses_train_min_max:
  assumes "dd ''train_features'' = Some (DataFrame tr)"
    and "dd ''test_features'' = Some (DataFrame te)"
    and "columns te = columns tr"
  shows "(\<exists>dk'. normalize_data dd dk =
     Inr (dd(''train_features'' \<mapsto>
               DataFrame (map (\<lambda>(c, xs). (c, map (rescale (nanmin xs) (nanmax xs)) xs)) tr),
             ''test_features'' \<mapsto>
               DataFrame (map (\<lambda>((c, ys), (_, xs)). (c, map (rescale (nanmin xs) (nanmax xs)) ys))
                            (zip te tr))),
          dk'))
   \<and> (\<forall>(c, xs) \<in> set tr.
        (\<forall>v \<in> set xs. v \<noteq> NaN \<longrightarrow> fle (nanmin xs) v \<and> fle v (nanmax xs))
        \<and> ((\<exists>v \<in> set xs. v \<noteq> NaN) \<longrightarrow>
             nanmin xs \<in> set xs \<and> nanmax xs \<in> set xs \<and> nanmin xs \<noteq> NaN \<and> nanmax xs \<noteq> NaN)
        \<and> ((\<forall>v \<in> set xs. v = NaN) \<longrightarrow> nanmin xs = NaN \<and> nanmax xs = NaN))"
proof -
  have run: "\<exists>dk'. normalize_data dd dk =
     Inr (dd(''train_features'' \<mapsto>
               DataFrame (map (\<lambda>(c, xs). (c, map (rescale (nanmin xs) (nanmax xs)) xs)) tr),
             ''test_features'' \<mapsto>
               DataFrame (map (\<lambda>((c, ys), (_, xs)). (c, map (rescale (nanmin xs) (nanmax xs)) ys))
                            (zip te tr))),
          dk')"
    using normalize_data_aligned [OF assms, of dk] by blast
  have stats: "(\<forall>v \<in> set xs. v \<noteq> NaN \<longrightarrow> fle (nanmin xs) v \<and> fle v (nanmax xs))
        \<and> ((\<exists>v \<in> set xs. v \<noteq> NaN) \<longrightarrow>
             nanmin xs \<in> set xs \<and> nanmax xs \<in> set xs \<and> nanmin xs \<noteq> NaN \<and> nanmax xs \<noteq> NaN)
        \<and> ((\<forall>v \<in> set xs. v = NaN) \<longrightarrow> nanmin xs = NaN \<and> nanmax xs = NaN)" for xs
    using nanmin_lower [of _ xs] nanmax_upper [of _ xs] nanmin_mem [of _ xs] nanmax_mem [of _ xs]
      nanmin_all_nan [of xs] nanmax_all_nan [of xs]
    by blast
  from run stats show ?thesis by blast
qed

theorem normalize_data_uses_train_min_max_witness:
  "columns [(''a'', [Fin 5, Fin 20, Fin (- 5)]), (''b'', [Fin 2, Fin 4, Fin 0])]
     = columns [(''a'', [Fin 7, Fin 0, Fin 10, Fin 3]), (''b'', [Fin 4, NaN, Fin 2, Fin 3])]
   \<and> (\<exists>dd' dk'. normalize_data
        [''train_features'' \<mapsto>
           DataFrame [(''a'', [Fin 7, Fin 0, Fin 10, Fin 3]), (''b'', [Fin 4, NaN, Fin 2, Fin 3])],
         ''test_features'' \<mapsto>
           DataFrame [(''a'', [Fin 5, Fin 20, Fin (- 5)]), (''b'', [Fin 2, Fin 4, Fin 0])],
         ''train_labels'' \<mapsto> Object (1::nat)]
        \<lparr>data = Map.empty, data_dictionary = Map.empty, training_features_list = [],
         do_predict = []\<rparr>
      = Inr (dd', dk')
      \<and> dd' ''train_features'' =
          Some (DataFrame [(''a'', [Fin (2/5), Fin (- 1), Fin 1, Fin (- 2/5)]),
                           (''b'', [Fin 1, NaN, Fin (- 1), Fin 0])])
      \<and> dd' ''test_features'' =
          Some (DataFrame [(''a'', [Fin 0, Fin 3, Fin (- 2)]), (''b'', [Fin (- 1), Fin 1, Fin (- 3)])]))
   \<and> nanmin [Fin 7, Fin 0, Fin 10, Fin 3] = Fin 0 \<and> nanmax [Fin 7, Fin 0, Fin 10, Fin 3] = Fin 10
   \<and> nanmin [Fin 4, NaN, Fin 2, Fin 3] = Fin 2 \<and> nanmax [Fin 4, NaN, Fin 2, Fin 3] = Fin 4"
proof -
  let ?tr = "[(''a'', [Fin 7, Fin 0, Fin 10, Fin 3]), (''b'', [Fin 4, NaN, Fin 2, Fin 3])]"
  let ?te = "[(''a'', [Fin 5, Fin 20, Fin (- 5)]), (''b'', [Fin 2, Fin 4, Fin 0])]"
  let ?dd = "[''train_features'' \<mapsto> DataFrame ?tr, ''test_features'' \<mapsto> DataFrame ?te,
    ''train_labels'' \<mapsto> Object (1::nat)]"
  let ?dk = "\<lparr>data = Map.empty, data_dictionary = Map.empty, training_features_list = [],
    do_predict = []\<rparr> :: nat kitchen"
  let ?a = "map (\<lambda>(c, xs). (c, map (rescale (nanmin xs) (nanmax xs)) xs)) ?tr"
  let ?b = "map (\<lambda>((c, ys), (_, xs)). (c, map (rescale (nanmin xs) (nanmax xs)) ys)) (zip ?te ?tr)"
  have h1: "?dd ''train_features'' = Some (DataFrame ?tr)" by simp
  have h2: "?dd ''test_features'' = Some (DataFrame ?te)" by simp
  have h3: "columns ?te = columns ?tr" by (simp add: columns_def)
  have sa: "nanmin [Fin 7, Fin 0, Fin 10, Fin 3] = Fin 0 \<and> nanmax [Fin 7, Fin 0, Fin 10, Fin 3] = Fin 10"
    by (simp add: nanmin_def nanmax_def isnan_def fmin_def fmax_def)
  have sb: "nanmin [Fin 4, NaN, Fin 2, Fin 3] = Fin 2 \<and> nanmax [Fin 4, NaN, Fin 2, Fin 3] = Fin 4"
    by (simp add: nanmin_def nanmax_def isnan_def fmin_def fmax_def)
  from normalize_data_uses_train_min_max [OF h1 h2 h3, of ?dk]
  obtain dk' where run: "normalize_data ?dd ?dk =
      Inr (?dd(''train_features'' \<mapsto> DataFrame ?a, ''test_features'' \<mapsto> DataFrame ?b), dk')"
    by blast
  have a: "?a = [(''a'', [Fin (2/5), Fin (- 1), Fin 1, Fin (- 2/5)]),
                 (''b'', [Fin 1, NaN, Fin (- 1), Fin 0])]"
    by (simp add: sa sb rescale_def fsub_def)
  have b: "?b = [(''a'', [Fin 0, Fin 3, Fin (- 2)]), (''b'', [Fin (- 1), Fin 1, Fin (- 3)])]"
    by (simp add: sa sb rescale_def fsub_def)
  have "(?dd(''train_features'' \<mapsto> DataFrame ?a, ''test_features'' \<mapsto> DataFrame ?b)) ''train_features''
          = Some (DataFrame [(''a'', [Fin (2/5), Fin (- 1), Fin 1, Fin (- 2/5)]),
                 (''b'', [Fin 1, NaN, Fin (- 1), Fin 0])])"
    and "(?dd(''train_features'' \<mapsto> DataFrame ?a, ''test_features'' \<mapsto> DataFrame ?b)) ''test_features''
          = Some (DataFrame [(''a'', [Fin 0, Fin 3, Fin (- 2)]), (''b'', [Fin (- 1), Fin 1, Fin (- 3)])])"
    by (simp_all only: a b fun_upd_apply) simp_all
  with run h3 sa sb show ?thesis by blast
qed

section \<open>The transform in one cell\<close>

lemma rescale_Fin:
  "lo \<noteq> hi \<Longrightarrow> rescale (Fin lo) (Fin hi) (Fin v) = Fin (2 * (v - lo) / (hi - lo) - 1)"
  by (simp add: rescale_def fsub_def)

lemma rescale_NaN: "rescale lo hi NaN = NaN"
  by (simp add: rescale_def fsub_def)

lemma rescale_same: "rescale m m m = NaN"
  by (cases m) (simp_all add: rescale_def fsub_def)

lemma rescale_degenerate:
  assumes "nanmax xs = nanmin xs" "v \<in> set xs"
  shows "rescale (nanmin xs) (nanmax xs) v = NaN"
proof (cases "v = NaN")
  case True
  then show ?thesis by (simp add: rescale_NaN)
next
  case False
  from nanmax_upper [OF assms(2) False] nanmin_lower [OF assms(2) False] assms(1)
  have "v = nanmin xs" by (auto intro: fle_antisym)
  with assms(1) show ?thesis by (simp add: rescale_same)
qed

lemma rescale_zero_width:
  "rescale (Fin m) (Fin m) v =
     (case v of Fin y \<Rightarrow> (if y = m then NaN else if m < y then PosInf else NegInf) | _ \<Rightarrow> v)"
  by (cases v) (auto simp: rescale_def fsub_def signed_inf_def)

section \<open>Entries that normalize_data leaves alone\<close>

text \<open>
  Claim C9.  In the dictionary that \<open>normalize_data\<close> returns, every entry other than
  \<^verbatim>\<open>train_features\<close> and \<^verbatim>\<open>test_features\<close> is the entry of the dictionary it was
  given.
\<close>

theorem normalize_data_other_entries_unchanged:
  assumes "normalize_data dd dk = Inr (dd', dk')"
    and "k \<noteq> ''train_features''" and "k \<noteq> ''test_features''"
  shows "dd' k = dd k"
proof -
  from normalize_data_Inr [OF assms(1)] obtain a b where
    "dd' = dd(''train_features'' \<mapsto> DataFrame a, ''test_features'' \<mapsto> DataFrame b)"
    by blast
  with assms(2,3) show ?thesis by simp
qed

theorem normalize_data_other_entries_unchanged_witness:
  "\<exists>dd' dk'.
     normalize_data
       [''train_features'' \<mapsto> DataFrame [(''a'', [Fin 0, Fin 10])],
        ''test_features'' \<mapsto> DataFrame [(''a'', [Fin 5, Fin 20])],
        ''train_labels'' \<mapsto> Object ''up'', ''test_weights'' \<mapsto> Series [(''0'', Fin 1)]]
       \<lparr>data = Map.empty, data_dictionary = Map.empty, training_features_list = [],
        do_predict = []\<rparr>
     = Inr (dd', dk')
     \<and> ''train_labels'' \<noteq> ''train_features'' \<and> ''train_labels'' \<noteq> ''test_features''
     \<and> dd' ''train_labels'' = Some (Object ''up'')"
proof -
  let ?tr = "[(''a'', [Fin 0, Fin 10])]"
  let ?te = "[(''a'', [Fin 5, Fin 20])]"
  let ?dd = "[''train_features'' \<mapsto> DataFrame ?tr, ''test_features'' \<mapsto> DataFrame ?te,
    ''train_labels'' \<mapsto> Object ''up'', ''test_weights'' \<mapsto> Series [(''0'', Fin 1)]]"
  let ?dk = "\<lparr>data = Map.empty, data_dictionary = Map.empty, training_features_list = [],
    do_predict = []\<rparr> :: string kitchen"
  have h1: "?dd ''train_features'' = Some (DataFrame ?tr)" by simp
  have h2: "?dd ''test_features'' = Some (DataFrame ?te)" by simp
  have h3: "columns ?te = columns ?tr" by (simp add: columns_def)
  from normalize_data_aligned [OF h1 h2 h3, of ?dk]
  obtain dd' dk' where run: "normalize_data ?dd ?dk = Inr (dd', dk')" by blast
  have n1: "''train_labels'' \<noteq> ''train_features''" and n2: "''train_labels'' \<noteq> ''test_features''"
    by simp_all
  from normalize_data_other_entries_unchanged [OF run n1 n2]
  have "dd' ''train_labels'' = Some (Object ''up'')" by simp
  with run n1 n2 show ?thesis by blast
qed

section \<open>The persisted parameters\<close>

text \<open>
  Claim C5.  When the column labels of the train matrix are distinct, the store of the
  kitchen that \<open>normalize_data\<close> returns maps, for every train column, the label with
  \<^verbatim>\<open>_min\<close> appended to the minimum and the label with \<^verbatim>\<open>_max\<close> appended to the
  maximum of that column as it was before the normalization; every other key of the store
  is as it was, and so is the rest of the kitchen.
\<close>

theorem normalize_data_persists_statistics:
  assumes "normalize_data dd dk = Inr (dd', dk')"
    and "dd ''train_features'' = Some (DataFrame tr)"
    and "distinct (columns tr)"
  shows "(\<forall>(c, xs) \<in> set tr.
            data dk' (c @ ''_min'') = Some (Float (nanmin xs)) \<and>
            data dk' (c @ ''_max'') = Some (Float (nanmax xs)))
     \<and> (\<forall>k. (\<forall>c \<in> set (columns tr). k \<noteq> c @ ''_min'' \<and> k \<noteq> c @ ''_max'') \<longrightarrow>
            data dk' k = data dk k)
     \<and> dk' = dk\<lparr>data := data dk'\<rparr>"
proof -
  from normalize_data_Inr [OF assms(1)] assms(2) obtain store' where
    st: "store_stats (columns tr) (df_max tr) (df_min tr) (data dk) = Inr store'"
    and dk': "dk' = dk\<lparr>data := store'\<rparr>"
    by auto
  from store_stats_train [OF assms(3) subset_refl, of "data dk"] st
  have hit: "\<forall>c xs. c \<in> set (columns tr) \<longrightarrow> (c, xs) \<in> set tr \<longrightarrow>
        store' (c @ ''_min'') = Some (Float (nanmin xs)) \<and>
        store' (c @ ''_max'') = Some (Float (nanmax xs))"
    and miss: "\<forall>k. (\<forall>c \<in> set (columns tr). k \<noteq> c @ ''_min'' \<and> k \<noteq> c @ ''_max'') \<longrightarrow>
        store' k = data dk k"
    by auto
  have "\<forall>(c, xs) \<in> set tr.
            store' (c @ ''_min'') = Some (Float (nanmin xs)) \<and>
            store' (c @ ''_max'') = Some (Float (nanmax xs))"
    using hit by (force simp: columns_def)
  with miss dk' show ?thesis by simp
qed

theorem normalize_data_persists_statistics_witness:
  "\<exists>dd' dk'.
     normalize_data
       [''train_features'' \<mapsto> DataFrame [(''a'', [Fin 0, Fin 10]), (''b'', [Fin 7, Fin 3])],
        ''test_features'' \<mapsto> DataFrame [(''a'', [Fin 5]), (''b'', [Fin 4])]]
       \<lparr>data = [''pair'' \<mapsto> Object ''BTC''], data_dictionary = Map.empty,
        training_features_list = [], do_predict = []\<rparr>
     = Inr (dd', dk')
     \<and> distinct (columns [(''a'', [Fin 0, Fin 10]), (''b'', [Fin 7, Fin 3])])
     \<and> data dk' ''a_min'' = Some (Float (Fin 0)) \<and> data dk' ''a_max'' = Some (Float (Fin 10))
     \<and> data dk' ''b_min'' = Some (Float (Fin 3)) \<and> data dk' ''b_max'' = Some (Float (Fin 7))
     \<and> data dk' ''pair'' = Some (Object ''BTC'')"
proof -
  let ?tr = "[(''a'', [Fin 0, Fin 10]), (''b'', [Fin 7, Fin 3])]"
  let ?te = "[(''a'', [Fin 5]), (''b'', [Fin 4])]"
  let ?dd = "[''train_features'' \<mapsto> DataFrame ?tr, ''test_features'' \<mapsto> DataFrame ?te]
    :: string pydict"
  let ?dk = "\<lparr>data = [''pair'' \<mapsto> Object ''BTC''], data_dictionary = Map.empty,
    training_features_list = [], do_predict = []\<rparr> :: string kitchen"
  have h1: "?dd ''train_features'' = Some (DataFrame ?tr)" by simp
  have h2: "?dd ''test_features'' = Some (DataFrame ?te)" by simp
  have h3: "columns ?te = columns ?tr" by (simp add: columns_def)
  have d: "distinct (columns ?tr)" by (simp add: columns_def)
  from normalize_data_aligned [OF h1 h2 h3, of ?dk]
  obtain dd' dk' where run: "normalize_data ?dd ?dk = Inr (dd', dk')" by blast
  from normalize_data_persists_statistics [OF run h1 d]
  have hit: "\<forall>(c, xs) \<in> set ?tr.
            data dk' (c @ ''_min'') = Some (Float (nanmin xs)) \<and>
            data dk' (c @ ''_max'') = Some (Float (nanmax xs))"
    and miss: "\<forall>k. (\<forall>c \<in> set (columns ?tr). k \<noteq> c @ ''_min'' \<and> k \<noteq> c @ ''_max'') \<longrightarrow>
            data dk' k = data ?dk k"
    by blast+
  from hit have "data dk' ''a_min'' = Some (Float (Fin 0)) \<and> data dk' ''a_max'' = Some (Float (Fin 10))
     \<and> data dk' ''b_min'' = Some (Float (Fin 3)) \<and> data dk' ''b_max'' = Some (Float (Fin 7))"
    by (simp add: nanmin_def nanmax_def isnan_def fmin_def fmax_def)
  moreover from miss have "data dk' ''pair'' = Some (Object ''BTC'')"
    by (simp add: columns_def)
  ultimately show ?thesis using run d by blast
qed

section \<open>Columns of zero width\<close>

lemma normalize_data_column:
  assumes tr: "dd ''train_features'' = Some (DataFrame tr)"
    and te: "dd ''test_features'' = Some (DataFrame te)"
    and cols: "columns te = columns tr"
    and j: "j < length tr"
  shows "\<exists>dd' dk' a b. normalize_data dd dk = Inr (dd', dk')
     \<and> dd' ''train_features'' = Some (DataFrame a) \<and> dd' ''test_features'' = Some (DataFrame b)
     \<and> snd (a ! j) = map (rescale (nanmin (snd (tr ! j))) (nanmax (snd (tr ! j)))) (snd (tr ! j))
     \<and> snd (b ! j) = map (rescale (nanmin (snd (tr ! j))) (nanmax (snd (tr ! j)))) (snd (te ! j))"
proof -
  let ?a = "map (\<lambda>(c, xs). (c, map (rescale (nanmin xs) (nanmax xs)) xs)) tr"
  let ?b = "map (\<lambda>((c, ys), (_, xs)). (c, map (rescale (nanmin xs) (nanmax xs)) ys)) (zip te tr)"
  from normalize_data_aligned [OF tr te cols, of dk] obtain store' where
    run: "normalize_data dd dk =
      Inr (dd(''train_features'' \<mapsto> DataFrame ?a, ''test_features'' \<mapsto> DataFrame ?b),
           dk\<lparr>data := store'\<rparr>)"
    by blast
  have len: "length te = length tr"
    using cols unfolding columns_def by (metis length_map)
  have a: "snd (?a ! j) = map (rescale (nanmin (snd (tr ! j))) (nanmax (snd (tr ! j)))) (snd (tr ! j))"
    using j by (simp add: case_prod_beta)
  have b: "snd (?b ! j) = map (rescale (nanmin (snd (tr ! j))) (nanmax (snd (tr ! j)))) (snd (te ! j))"
    using j len by (simp add: case_prod_beta)
  have "(dd(''train_features'' \<mapsto> DataFrame ?a, ''test_features'' \<mapsto> DataFrame ?b)) ''train_features''
          = Some (DataFrame ?a)"
    and "(dd(''train_features'' \<mapsto> DataFrame ?a, ''test_features'' \<mapsto> DataFrame ?b)) ''test_features''
          = Some (DataFrame ?b)"
    by simp_all
  with run a b show ?thesis by blast
qed

text \<open>
  Claim C3, as the code has it.  A train column whose maximum equals its minimum raises
  nothing and gets no default: \<open>normalize_data\<close> returns, every cell of that train
  column is NaN afterwards, and when the common value is finite a finite held-out cell of
  that column becomes NaN where it equals that value, the positive infinity where it is
  greater and the negative infinity where it is smaller.
\<close>

theorem degenerate_column_becomes_nan:
  assumes "dd ''train_features'' = Some (DataFrame tr)"
    and "dd ''test_features'' = Some (DataFrame te)"
    and "columns te = columns tr"
    and "j < length tr"
    and "nanmax (snd (tr ! j)) = nanmin (snd (tr ! j))"
  shows "\<exists>dd' dk' a b. normalize_data dd dk = Inr (dd', dk')
     \<and> dd' ''train_features'' = Some (DataFrame a) \<and> dd' ''test_features'' = Some (DataFrame b)
     \<and> snd (a ! j) = map (\<lambda>v. NaN) (snd (tr ! j))
     \<and> (\<forall>m. nanmin (snd (tr ! j)) = Fin m \<longrightarrow>
          snd (b ! j) =
            map (\<lambda>v. case v of
                       Fin y \<Rightarrow> (if y = m then NaN else if m < y then PosInf else NegInf)
                     | _ \<Rightarrow> v)
              (snd (te ! j)))"
proof -
  let ?xs = "snd (tr ! j)"
  from normalize_data_column [OF assms(1-4), of dk] obtain dd' dk' a b where
    run: "normalize_data dd dk = Inr (dd', dk')"
    and ab: "dd' ''train_features'' = Some (DataFrame a)" "dd' ''test_features'' = Some (DataFrame b)"
    and a: "snd (a ! j) = map (rescale (nanmin ?xs) (nanmax ?xs)) ?xs"
    and b: "snd (b ! j) = map (rescale (nanmin ?xs) (nanmax ?xs)) (snd (te ! j))"
    by blast
  have "map (rescale (nanmin ?xs) (nanmax ?xs)) ?xs = map (\<lambda>v. NaN) ?xs"
    by (rule map_cong [OF refl]) (rule rescale_degenerate [OF assms(5)])
  with a have a': "snd (a ! j) = map (\<lambda>v. NaN) ?xs" by simp
  have b': "snd (b ! j) =
            map (\<lambda>v. case v of
                       Fin y \<Rightarrow> (if y = m then NaN else if m < y then PosInf else NegInf)
                     | _ \<Rightarrow> v)
              (snd (te ! j))" if "nanmin ?xs = Fin m" for m
    using b assms(5) that by (simp add: rescale_zero_width)
  from run ab a' b' show ?thesis by blast
qed

theorem degenerate_column_becomes_nan_witness:
  "columns [(''a'', [Fin 1, Fin 2, Fin 3]), (''b'', [Fin 5, Fin 4, Fin 6])] = columns [(''a'', [Fin 0, Fin 10]), (''b'', [Fin 5, Fin 5])]
   \<and> (1::nat) < length [(''a'', [Fin 0, Fin 10]), (''b'', [Fin 5, Fin 5])]
   \<and> nanmax (snd ([(''a'', [Fin 0, Fin 10]), (''b'', [Fin 5, Fin 5])] ! 1))
       = nanmin (snd ([(''a'', [Fin 0, Fin 10]), (''b'', [Fin 5, Fin 5])] ! 1))
   \<and> (\<exists>dd' dk' a b.
        normalize_data
          [''train_features'' \<mapsto> DataFrame [(''a'', [Fin 0, Fin 10]), (''b'', [Fin 5, Fin 5])],
           ''test_features'' \<mapsto> DataFrame [(''a'', [Fin 1, Fin 2, Fin 3]), (''b'', [Fin 5, Fin 4, Fin 6])]]
          (\<lparr>data = Map.empty, data_dictionary = Map.empty, training_features_list = [],
            do_predict = []\<rparr> :: unit kitchen)
        = Inr (dd', dk')
        \<and> dd' ''train_features'' = Some (DataFrame a) \<and> dd' ''test_features'' = Some (DataFrame b)
        \<and> snd (a ! 1) = [NaN, NaN] \<and> snd (b ! 1) = [NaN, NegInf, PosInf])"
proof -
  let ?tr = "[(''a'', [Fin 0, Fin 10]), (''b'', [Fin 5, Fin 5])]"
  let ?te = "[(''a'', [Fin 1, Fin 2, Fin 3]), (''b'', [Fin 5, Fin 4, Fin 6])]"
  let ?dd = "[''train_features'' \<mapsto> DataFrame ?tr, ''test_features'' \<mapsto> DataFrame ?te]
    :: unit pydict"
  let ?dk = "\<lparr>data = Map.empty, data_dictionary = Map.empty, training_features_list = [],
    do_predict = []\<rparr> :: unit kitchen"
  have h1: "?dd ''train_features'' = Some (DataFrame ?tr)" by simp
  have h2: "?dd ''test_features'' = Some (DataFrame ?te)" by simp
  have h3: "columns ?te = columns ?tr" by (simp add: columns_def)
  have h4: "(1::nat) < length ?tr" by simp
  have mn: "nanmin (snd (?tr ! 1)) = Fin 5"
    by (simp add: nanmin_def isnan_def fmin_def)
  have mx: "nanmax (snd (?tr ! 1)) = Fin 5"
    by (simp add: nanmax_def isnan_def fmax_def)
  have h5: "nanmax (snd (?tr ! 1)) = nanmin (snd (?tr ! 1))"
    by (simp only: mn mx)
  from degenerate_column_becomes_nan [OF h1 h2 h3 h4 h5, of ?dk] obtain dd' dk' a b where
    run: "normalize_data ?dd ?dk = Inr (dd', dk')"
    and ab: "dd' ''train_features'' = Some (DataFrame a)" "dd' ''test_features'' = Some (DataFrame b)"
    and a: "snd (a ! 1) = map (\<lambda>v. NaN) (snd (?tr ! 1))"
    and b: "\<forall>m. nanmin (snd (?tr ! 1)) = Fin m \<longrightarrow>
          snd (b ! 1) =
            map (\<lambda>v. case v of
                       Fin y \<Rightarrow> (if y = m then NaN else if m < y then PosInf else NegInf)
                     | _ \<Rightarrow> v)
              (snd (?te ! 1))"
    by blast
  from a have a': "snd (a ! 1) = [NaN, NaN]" by simp
  from b mn have "snd (b ! 1) =
            map (\<lambda>v. case v of
                       Fin y \<Rightarrow> (if y = 5 then NaN else if 5 < y then PosInf else NegInf)
                     | _ \<Rightarrow> v)
              (snd (?te ! 1))"
    by blast
  then have b': "snd (b ! 1) = [NaN, NegInf, PosInf]" by simp
  from h3 h4 h5 run ab a' b' show ?thesis by blast
qed

text \<open>
  The scenario of the specification, \<open>a = [0, 10]\<close> and \<open>b = [5, 5]\<close>: no error, and
  column \<open>b\<close> comes back as NaN in the train matrix and as NaN and an infinity in the
  test matrix.
\<close>

theorem degenerate_column_counterexample:
  "normalize_data
     [''train_features'' \<mapsto> DataFrame [(''a'', [Fin 0, Fin 10]), (''b'', [Fin 5, Fin 5])],
      ''test_features'' \<mapsto> DataFrame [(''a'', [Fin 5, Fin 20]), (''b'', [Fin 5, Fin 6])]]
     (\<lparr>data = Map.empty, data_dictionary = Map.empty, training_features_list = [],
       do_predict = []\<rparr> :: unit kitchen)
   = Inr ([''train_features'' \<mapsto> DataFrame [(''a'', [Fin (- 1), Fin 1]), (''b'', [NaN, NaN])],
           ''test_features'' \<mapsto> DataFrame [(''a'', [Fin 0, Fin 3]), (''b'', [NaN, PosInf])]],
          \<lparr>data = [''a_max'' \<mapsto> Float (Fin 10), ''a_min'' \<mapsto> Float (Fin 0),
                   ''b_max'' \<mapsto> Float (Fin 5), ''b_min'' \<mapsto> Float (Fin 5)],
           data_dictionary = Map.empty, training_features_list = [], do_predict = []\<rparr>)"
proof -
  let ?tr = "[(''a'', [Fin 0, Fin 10]), (''b'', [Fin 5, Fin 5])]"
  let ?te = "[(''a'', [Fin 5, Fin 20]), (''b'', [Fin 5, Fin 6])]"
  let ?a = "[(''a'', [Fin (- 1), Fin 1]), (''b'', [NaN, NaN])]"
  let ?b = "[(''a'', [Fin 0, Fin 3]), (''b'', [NaN, PosInf])]"
  let ?dd = "[''train_features'' \<mapsto> DataFrame ?tr, ''test_features'' \<mapsto> DataFrame ?te]
    :: unit pydict"
  let ?dk = "\<lparr>data = Map.empty, data_dictionary = Map.empty, training_features_list = [],
    do_predict = []\<rparr> :: unit kitchen"
  let ?store = "[''a_max'' \<mapsto> Float (Fin 10), ''a_min'' \<mapsto> Float (Fin 0),
                 ''b_max'' \<mapsto> Float (Fin 5), ''b_min'' \<mapsto> Float (Fin 5)] :: unit pydict"
  have mx: "df_max ?tr = [(''a'', Fin 10), (''b'', Fin 5)]"
    by (simp add: df_max_def nanmax_def isnan_def fmax_def)
  have mn: "df_min ?tr = [(''a'', Fin 0), (''b'', Fin 5)]"
    by (simp add: df_min_def nanmin_def isnan_def fmin_def)
  have h1: "?dd ''train_features'' = Some (DataFrame ?tr)" by simp
  have h2: "?dd ''test_features'' = Some (DataFrame ?te)" by simp
  have a: "scale_frame ?tr (df_max ?tr) (df_min ?tr) = Inr ?a"
    unfolding mx mn
    by (simp add: scale_frame_def frame_series_op_def series_op_def frame_map_def
        columns_def keys_def fsub_def)
  have b: "scale_frame ?te (df_max ?tr) (df_min ?tr) = Inr ?b"
    unfolding mx mn
    by (simp add: scale_frame_def frame_series_op_def series_op_def frame_map_def
        columns_def keys_def fsub_def signed_inf_def)
  have st: "store_stats (columns ?tr) (df_max ?tr) (df_min ?tr) (data ?dk) = Inr ?store"
    unfolding mx mn by (simp add: columns_def series_getitem_def)
  have dd: "?dd(''train_features'' \<mapsto> DataFrame ?a, ''test_features'' \<mapsto> DataFrame ?b) =
     [''train_features'' \<mapsto> DataFrame ?a, ''test_features'' \<mapsto> DataFrame ?b]"
    by (rule ext) simp
  have dk: "?dk\<lparr>data := ?store\<rparr> =
     \<lparr>data = ?store, data_dictionary = Map.empty, training_features_list = [], do_predict = []\<rparr>"
    by simp
  from normalize_data_run [OF h1 h2 a b st] show ?thesis
    by (simp only: dd dk)
qed

section \<open>Applying the stored parameters again\<close>

lemma normalize_data_from_metadata_stored:
  assumes "\<forall>(c, xs) \<in> set df.
     store (c @ ''_min'') = Some (Float (nanmin xs)) \<and>
     store (c @ ''_max'') = Some (Float (nanmax xs))"
  shows "normalize_data_from_metadata store df =
     Inr (map (\<lambda>(c, xs). (c, map (rescale (nanmin xs) (nanmax xs)) xs)) df)"
  using assms
proof (induction df)
  case Nil
  then show ?case by simp
next
  case (Cons col df)
  obtain c xs where col: "col = (c, xs)" by (cases col)
  from Cons.prems col have here: "store (c @ ''_min'') = Some (Float (nanmin xs))"
    "store (c @ ''_max'') = Some (Float (nanmax xs))"
    by auto
  from Cons.prems have "\<forall>(c, xs) \<in> set df.
     store (c @ ''_min'') = Some (Float (nanmin xs)) \<and>
     store (c @ ''_max'') = Some (Float (nanmax xs))"
    by simp
  from Cons.IH [OF this] here show ?case
    by (simp add: col getitem_def as_float_def)
qed

text \<open>
  Claim C6.  After \<open>normalize_data\<close> has run on a train matrix with distinct column
  labels, applying the parameters it stored to that raw train matrix again returns
  exactly the normalized train matrix that \<open>normalize_data\<close> put into the dictionary.
\<close>

theorem stored_parameters_reproduce_train:
  assumes "normalize_data dd dk = Inr (dd', dk')"
    and "dd ''train_features'' = Some (DataFrame tr)"
    and "distinct (columns tr)"
  shows "\<exists>a. dd' ''train_features'' = Some (DataFrame a) \<and>
     normalize_data_from_metadata (data dk') tr = Inr a"
proof -
  let ?a = "map (\<lambda>(c, xs). (c, map (rescale (nanmin xs) (nanmax xs)) xs)) tr"
  from normalize_data_Inr [OF assms(1)] assms(2) obtain b store' where
    st: "store_stats (columns tr) (df_max tr) (df_min tr) (data dk) = Inr store'"
    and dd': "dd' = dd(''train_features'' \<mapsto> DataFrame ?a, ''test_features'' \<mapsto> DataFrame b)"
    and dk': "dk' = dk\<lparr>data := store'\<rparr>"
    by (auto simp: scale_frame_train)
  from store_stats_train [OF assms(3) subset_refl, of "data dk"] st
  have "\<forall>c xs. c \<in> set (columns tr) \<longrightarrow> (c, xs) \<in> set tr \<longrightarrow>
        store' (c @ ''_min'') = Some (Float (nanmin xs)) \<and>
        store' (c @ ''_max'') = Some (Float (nanmax xs))"
    by auto
  then have "\<forall>(c, xs) \<in> set tr.
        store' (c @ ''_min'') = Some (Float (nanmin xs)) \<and>
        store' (c @ ''_max'') = Some (Float (nanmax xs))"
    by (force simp: columns_def)
  then have "normalize_data_from_metadata store' tr = Inr ?a"
    by (rule normalize_data_from_metadata_stored)
  moreover have "dd' ''train_features'' = Some (DataFrame ?a)"
    by (simp add: dd')
  ultimately show ?thesis by (simp add: dk')
qed

theorem stored_parameters_reproduce_train_witness:
  "\<exists>dd' dk'.
     normalize_data
       [''train_features'' \<mapsto> DataFrame [(''a'', [Fin 0, Fin 10]), (''b'', [Fin 5, Fin 5])],
        ''test_features'' \<mapsto> DataFrame [(''a'', [Fin 5, Fin 20]), (''b'', [Fin 5, Fin 6])]]
       (\<lparr>data = Map.empty, data_dictionary = Map.empty, training_features_list = [],
         do_predict = []\<rparr> :: unit kitchen)
     = Inr (dd', dk')
     \<and> distinct (columns [(''a'', [Fin 0, Fin 10]), (''b'', [Fin 5, Fin 5])])
     \<and> dd' ''train_features'' = Some (DataFrame [(''a'', [Fin (- 1), Fin 1]), (''b'', [NaN, NaN])])
     \<and> normalize_data_from_metadata (data dk') [(''a'', [Fin 0, Fin 10]), (''b'', [Fin 5, Fin 5])]
         = Inr [(''a'', [Fin (- 1), Fin 1]), (''b'', [NaN, NaN])]"
proof -
  let ?tr = "[(''a'', [Fin 0, Fin 10]), (''b'', [Fin 5, Fin 5])]"
  let ?te = "[(''a'', [Fin 5, Fin 20]), (''b'', [Fin 5, Fin 6])]"
  let ?dd = "[''train_features'' \<mapsto> DataFrame ?tr, ''test_features'' \<mapsto> DataFrame ?te]
    :: unit pydict"
  let ?dk = "\<lparr>data = Map.empty, data_dictionary = Map.empty, training_features_list = [],
    do_predict = []\<rparr> :: unit kitchen"
  let ?a = "map (\<lambda>(c, xs). (c, map (rescale (nanmin xs) (nanmax xs)) xs)) ?tr"
  have h1: "?dd ''train_features'' = Some (DataFrame ?tr)" by simp
  have h2: "?dd ''test_features'' = Some (DataFrame ?te)" by simp
  have h3: "columns ?te = columns ?tr" by (simp add: columns_def)
  have d: "distinct (columns ?tr)" by (simp add: columns_def)
  from normalize_data_aligned [OF h1 h2 h3, of ?dk] obtain b dk' where
    run: "normalize_data ?dd ?dk =
       Inr (?dd(''train_features'' \<mapsto> DataFrame ?a, ''test_features'' \<mapsto> DataFrame b), dk')"
    by blast
  let ?dd' = "?dd(''train_features'' \<mapsto> DataFrame ?a, ''test_features'' \<mapsto> DataFrame b)"
  have a: "?a = [(''a'', [Fin (- 1), Fin 1]), (''b'', [NaN, NaN])]"
    by (simp add: nanmin_def nanmax_def isnan_def fmin_def fmax_def rescale_def fsub_def)
  have tf: "?dd' ''train_features'' = Some (DataFrame [(''a'', [Fin (- 1), Fin 1]), (''b'', [NaN, NaN])])"
    by (simp only: a fun_upd_apply) simp
  from stored_parameters_reproduce_train [OF run h1 d] tf
  have "normalize_data_from_metadata (data dk') ?tr = Inr [(''a'', [Fin (- 1), Fin 1]), (''b'', [NaN, NaN])]"
    by auto
  with run d tf show ?thesis by blast
qed

section \<open>fit\<close>

text \<open>
  Claim C2.  \<open>fit\<close> hands the classifier library a classifier with the multi-class loss
  and an early-stopping patience of 10, and has it fitted on the features, labels and
  weights stored under \<^verbatim>\<open>test_...\<close>, with the features and labels stored under
  \<^verbatim>\<open>train_...\<close> as the evaluation set; what the library returns is what \<open>fit\<close>
  returns.
\<close>

theorem fit_trains_on_test_partition:
  assumes "dd ''train_features'' = Some train_X" and "dd ''train_labels'' = Some train_y"
    and "dd ''test_features'' = Some test_X" and "dd ''test_labels'' = Some test_y"
    and "dd ''test_weights'' = Some test_w"
  shows "fit catboost_fit dd =
     catboost_fit
       \<lparr>allow_writing_files = False, loss_function = ''MultiClass'', early_stopping_rounds = 10\<rparr>
       \<lparr>fit_X = test_X, fit_y = test_y, fit_sample_weight = test_w,
        fit_eval_set = (train_X, train_y)\<rparr>"
  using assms by (simp add: fit_def getitem_def)

theorem fit_trains_on_test_partition_witness:
  "fit (\<lambda>params args. Inr (params, args))
     [''train_features'' \<mapsto> DataFrame [(''a'', [Fin 0, Fin 1])],
      ''train_labels'' \<mapsto> Object ''old labels'',
      ''train_weights'' \<mapsto> Object ''old weights'',
      ''test_features'' \<mapsto> DataFrame [(''a'', [Fin 2, Fin 3])],
      ''test_labels'' \<mapsto> Object ''recent labels'',
      ''test_weights'' \<mapsto> Object ''recent weights'']
   = Inr (\<lparr>allow_writing_files = False, loss_function = ''MultiClass'',
           early_stopping_rounds = 10\<rparr>,
          \<lparr>fit_X = DataFrame [(''a'', [Fin 2, Fin 3])], fit_y = Object ''recent labels'',
           fit_sample_weight = Object ''recent weights'',
           fit_eval_set = (DataFrame [(''a'', [Fin 0, Fin 1])], Object ''old labels'')\<rparr>)"
proof -
  let ?dd = "[''train_features'' \<mapsto> DataFrame [(''a'', [Fin 0, Fin 1])],
      ''train_labels'' \<mapsto> Object ''old labels'',
      ''train_weights'' \<mapsto> Object ''old weights'',
      ''test_features'' \<mapsto> DataFrame [(''a'', [Fin 2, Fin 3])],
      ''test_labels'' \<mapsto> Object ''recent labels'',
      ''test_weights'' \<mapsto> Object ''recent weights'']"
  have h: "?dd ''train_features'' = Some (DataFrame [(''a'', [Fin 0, Fin 1])])"
    "?dd ''train_labels'' = Some (Object ''old labels'')"
    "?dd ''test_features'' = Some (DataFrame [(''a'', [Fin 2, Fin 3])])"
    "?dd ''test_labels'' = Some (Object ''recent labels'')"
    "?dd ''test_weights'' = Some (Object ''recent weights'')"
    by simp_all
  show ?thesis
    by (rule fit_trains_on_test_partition [OF h, of "\<lambda>params args. Inr (params, args)"])
qed

section \<open>return_values\<close>

text \<open>
  Claim C10.  \<open>return_values\<close> returns the dataframe it is given, and the plugin
  instance is as it was.
\<close>

theorem return_values_identity: "return_values self dataframe = (dataframe, self)"
  by (simp add: return_values_def)

section \<open>predict\<close>

lemma columns_array_columns: "columns (array_columns labels rows) = labels"
  by (induction labels arbitrary: rows) (simp_all add: columns_def)

lemma length_array_columns:
  "(c, xs) \<in> set (array_columns labels rows) \<Longrightarrow> length xs = length rows"
proof (induction labels arbitrary: rows)
  case Nil
  then show ?case by simp
next
  case (Cons l labels)
  from Cons.prems consider "xs = map hd rows" | "(c, xs) \<in> set (array_columns labels (map tl rows))"
    by auto
  then show ?case
  proof cases
    case 1
    then show ?thesis by simp
  next
    case 2
    from Cons.IH [OF 2] show ?thesis by simp
  qed
qed

lemma frame_row_array_columns:
  "list_all (\<lambda>r. length r = length labels) rows \<Longrightarrow> i < length rows \<Longrightarrow>
   frame_row (array_columns labels rows) i = rows ! i"
proof (induction labels arbitrary: rows)
  case Nil
  then have "length (rows ! i) = 0" by (simp add: list_all_length)
  then show ?case by (simp add: frame_row_def)
next
  case (Cons l labels)
  from Cons.prems have len: "length (rows ! i) = Suc (length labels)"
    by (simp add: list_all_length)
  then obtain v vs where r: "rows ! i = v # vs" by (cases "rows ! i") auto
  have tl: "list_all (\<lambda>r. length r = length labels) (map tl rows)"
    using Cons.prems(1) by (simp add: list_all_length)
  have "frame_row (array_columns labels (map tl rows)) i = map tl rows ! i"
    using Cons.prems(2) by (intro Cons.IH [OF tl]) simp
  then have "frame_row (array_columns labels (map tl rows)) i = vs"
    using Cons.prems(2) r by simp
  then show ?case
    using Cons.prems(2) r by (simp add: frame_row_def)
qed

text \<open>What \<open>predict\<close> returns when every call it makes returns.\<close>

lemma predict_run:
  assumes "dk_find_features host raw dk = Inr dk1"
    and "dk_filter_features host raw (training_features_list dk1) False dk1 = Inr ((filtered, labels), dk2)"
    and "dk_normalize_data_from_metadata host filtered dk2 = Inr (normalized, dk3)"
    and "self_data_cleaning_predict host
           (dk3\<lparr>data_dictionary :=
                  (data_dictionary dk3)(''prediction_features'' \<mapsto> DataFrame normalized)\<rparr>)
           normalized = Inr dk5"
    and "data_dictionary dk5 ''prediction_features'' = Some features"
    and "model_predict_proba host model features = Inr predictions"
    and "list_all (\<lambda>r. length r = length (model_classes host model)) predictions"
  shows "predict host model raw dk first console =
     Inr ((array_columns (model_classes host model) predictions, do_predict dk5), dk5,
          console @ [array_columns (model_classes host model) predictions])"
  using assms by (simp add: predict_def Let_def getitem_def new_DataFrame_def)

text \<open>
  Claim C7.  When the calls that \<open>predict\<close> makes return, \<open>predict\<close> returns a pair.
  Its first component is a frame with one column per class label of the classifier, named
  by the labels in their order, whose rows are, position by position, the probability
  rows that the classifier returned for the prediction features; its second component is
  the \<^verbatim>\<open>do_predict\<close> mask of the kitchen as the calls left it.
\<close>

theorem predict_returns_probabilities_and_mask:
  assumes "dk_find_features host raw dk = Inr dk1"
    and "dk_filter_features host raw (training_features_list dk1) False dk1 = Inr ((filtered, labels), dk2)"
    and "dk_normalize_data_from_metadata host filtered dk2 = Inr (normalized, dk3)"
    and "self_data_cleaning_predict host
           (dk3\<lparr>data_dictionary :=
                  (data_dictionary dk3)(''prediction_features'' \<mapsto> DataFrame normalized)\<rparr>)
           normalized = Inr dk5"
    and "data_dictionary dk5 ''prediction_features'' = Some features"
    and "model_predict_proba host model features = Inr predictions"
    and "list_all (\<lambda>r. length r = length (model_classes host model)) predictions"
  shows "\<exists>pred_df.
     predict host model raw dk first console =
       Inr ((pred_df, do_predict dk5), dk5, console @ [pred_df])
     \<and> columns pred_df = model_classes host model
     \<and> (\<forall>i < length predictions. frame_row pred_df i = predictions ! i)
     \<and> (\<forall>(c, xs) \<in> set pred_df. length xs = length predictions)"
proof -
  let ?df = "array_columns (model_classes host model) predictions"
  have "predict host model raw dk first console =
       Inr ((?df, do_predict dk5), dk5, console @ [?df])"
    using assms by (rule predict_run)
  moreover have "columns ?df = model_classes host model"
    by (rule columns_array_columns)
  moreover have "\<forall>i < length predictions. frame_row ?df i = predictions ! i"
    using assms(7) by (simp add: frame_row_array_columns)
  moreover have "\<forall>(c, xs) \<in> set ?df. length xs = length predictions"
    by (auto dest: length_array_columns)
  ultimately show ?thesis by blast
qed

theorem predict_returns_probabilities_and_mask_witness:
  "\<exists>pred_df dk'.
     predict
       \<lparr>dk_find_features = (\<lambda>raw dk. Inr (dk\<lparr>training_features_list := [''%rsi'']\<rparr>)),
        dk_filter_features =
          (\<lambda>raw wanted training_filter dk. Inr ((filter (\<lambda>(c, xs). c \<in> set wanted) raw, ()),
                                 dk\<lparr>do_predict := [1, 0]\<rparr>)),
        dk_normalize_data_from_metadata = (\<lambda>df dk. Inr (df, dk)),
        self_data_cleaning_predict = (\<lambda>dk df. Inr dk),
        model_predict_proba =
          (\<lambda>m X. Inr [[Fin (1/4), Fin (3/4)], [Fin (1/2), Fin (1/2)]]),
        model_classes = (\<lambda>m. [''down'', ''up''])\<rparr>
       ()
       [(''close'', [Fin 100, Fin 101]), (''%rsi'', [Fin 30, Fin 70])]
       (\<lparr>data = Map.empty, data_dictionary = Map.empty, training_features_list = [],
         do_predict = []\<rparr> :: unit kitchen)
       False []
     = Inr ((pred_df, [1, 0]), dk', [pred_df])
     \<and> columns pred_df = [''down'', ''up'']
     \<and> frame_row pred_df 0 = [Fin (1/4), Fin (3/4)]
     \<and> frame_row pred_df 1 = [Fin (1/2), Fin (1/2)]"
proof -
  let ?host = "\<lparr>dk_find_features = (\<lambda>raw dk. Inr (dk\<lparr>training_features_list := [''%rsi'']\<rparr>)),
        dk_filter_features =
          (\<lambda>raw wanted training_filter dk. Inr ((filter (\<lambda>(c, xs). c \<in> set wanted) raw, ()),
                                 dk\<lparr>do_predict := [1, 0]\<rparr>)),
        dk_normalize_data_from_metadata = (\<lambda>df dk. Inr (df, dk)),
        self_data_cleaning_predict = (\<lambda>dk df. Inr dk),
        model_predict_proba =
          (\<lambda>m X. Inr [[Fin (1/4), Fin (3/4)], [Fin (1/2), Fin (1/2)]]),
        model_classes = (\<lambda>m. [''down'', ''up''])\<rparr>
     :: (unit, unit, dataframe, unit, unit) host"
  let ?raw = "[(''close'', [Fin 100, Fin 101]), (''%rsi'', [Fin 30, Fin 70])]"
  let ?dk = "\<lparr>data = Map.empty, data_dictionary = Map.empty, training_features_list = [],
         do_predict = []\<rparr> :: unit kitchen"
  let ?dk1 = "?dk\<lparr>training_features_list := [''%rsi'']\<rparr>"
  let ?dk2 = "?dk1\<lparr>do_predict := [1, 0]\<rparr>"
  let ?X = "[(''%rsi'', [Fin 30, Fin 70])]"
  let ?dk5 = "?dk2\<lparr>data_dictionary :=
                  (data_dictionary ?dk2)(''prediction_features'' \<mapsto> DataFrame ?X)\<rparr>"
  let ?P = "[[Fin (1/4), Fin (3/4)], [Fin (1/2), Fin (1/2)]]"
  have h1: "dk_find_features ?host ?raw ?dk = Inr ?dk1" by simp
  have h2: "dk_filter_features ?host ?raw (training_features_list ?dk1) False ?dk1 = Inr ((?X, ()), ?dk2)"
    by simp
  have h3: "dk_normalize_data_from_metadata ?host ?X ?dk2 = Inr (?X, ?dk2)" by simp
  have h4: "self_data_cleaning_predict ?host ?dk5 ?X = Inr ?dk5" by simp
  have h5: "data_dictionary ?dk5 ''prediction_features'' = Some (DataFrame ?X)" by simp
  have h6: "model_predict_proba ?host () (DataFrame ?X) = Inr ?P" by simp
  have h7: "list_all (\<lambda>r. length r = length (model_classes ?host ())) ?P" by simp
  from predict_returns_probabilities_and_mask [OF h1 h2 h3 h4 h5 h6 h7, of False "[]"]
  obtain pred_df where
    run: "predict ?host () ?raw ?dk False [] = Inr ((pred_df, do_predict ?dk5), ?dk5, [] @ [pred_df])"
    and cols: "columns pred_df = model_classes ?host ()"
    and rows: "\<forall>i < length ?P. frame_row pred_df i = ?P ! i"
    by blast
  from run have run': "predict ?host () ?raw ?dk False [] = Inr ((pred_df, [1, 0]), ?dk5, [pred_df])"
    by simp
  from cols have cols': "columns pred_df = [''down'', ''up'']" by simp
  from rows have "frame_row pred_df 0 = ?P ! 0" and "frame_row pred_df 1 = ?P ! 1"
    by simp_all
  then have rows': "frame_row pred_df 0 = [Fin (1/4), Fin (3/4)]"
    "frame_row pred_df 1 = [Fin (1/2), Fin (1/2)]"
    by simp_all
  from run' cols' rows' show ?thesis by blast
qed

text \<open>
  Against claim C8: with a host whose methods leave the kitchen as it is, the kitchen that
  \<open>predict\<close> returns is not the kitchen it was given.  Line 129 has stored the
  prediction features in the kitchen's \<^verbatim>\<open>data_dictionary\<close>.
\<close>

theorem predict_changes_kitchen_counterexample:
  "predict
     \<lparr>dk_find_features = (\<lambda>raw dk. Inr dk),
      dk_filter_features = (\<lambda>raw wanted training_filter dk. Inr ((raw, ()), dk)),
      dk_normalize_data_from_metadata = (\<lambda>df dk. Inr (df, dk)),
      self_data_cleaning_predict = (\<lambda>dk df. Inr dk),
      model_predict_proba = (\<lambda>m X. Inr [[Fin (1/4), Fin (3/4)]]),
      model_classes = (\<lambda>m. [''down'', ''up''])\<rparr>
     ()
     [(''%rsi'', [Fin 0])]
     (\<lparr>data = Map.empty, data_dictionary = Map.empty, training_features_list = [''%rsi''],
       do_predict = [1]\<rparr> :: unit kitchen)
     False []
   = Inr (([(''down'', [Fin (1/4)]), (''up'', [Fin (3/4)])], [1]),
          \<lparr>data = Map.empty,
           data_dictionary = [''prediction_features'' \<mapsto> DataFrame [(''%rsi'', [Fin 0])]],
           training_features_list = [''%rsi''], do_predict = [1]\<rparr>,
          [[(''down'', [Fin (1/4)]), (''up'', [Fin (3/4)])]])
   \<and> data_dictionary
        \<lparr>data = Map.empty,
         data_dictionary = [''prediction_features'' \<mapsto> DataFrame [(''%rsi'', [Fin 0])]],
         training_features_list = [''%rsi''], do_predict = [1]\<rparr> ''prediction_features''
      \<noteq> data_dictionary
          (\<lparr>data = Map.empty, data_dictionary = Map.empty, training_features_list = [''%rsi''],
            do_predict = [1]\<rparr> :: unit kitchen) ''prediction_features''"
  by (simp add: predict_def Let_def getitem_def new_DataFrame_def)

text \<open>
  Claim C8, as the code has it.  The kitchen that \<open>predict\<close> returns is the one its four
  host calls produce in turn, with one write of \<open>predict\<close>'s own between the third and
  the fourth: the entry \<^verbatim>\<open>prediction_features\<close> of the kitchen's
  \<^verbatim>\<open>data_dictionary\<close> is set to the normalized frame.  The console gets the returned
  frame appended, and nothing else.
\<close>

theorem predict_writes_prediction_features:
  assumes "predict host model raw dk first console = Inr (result, dk', console')"
  shows "\<exists>dk1 filtered labels dk2 normalized dk3.
     dk_find_features host raw dk = Inr dk1 \<and>
     dk_filter_features host raw (training_features_list dk1) False dk1 = Inr ((filtered, labels), dk2) \<and>
     dk_normalize_data_from_metadata host filtered dk2 = Inr (normalized, dk3) \<and>
     self_data_cleaning_predict host
       (dk3\<lparr>data_dictionary :=
              (data_dictionary dk3)(''prediction_features'' \<mapsto> DataFrame normalized)\<rparr>)
       normalized = Inr dk' \<and>
     console' = console @ [fst result]"
  using assms
  by (auto simp: predict_def Let_def split: sum.splits prod.splits)

theorem predict_writes_prediction_features_witness:
  "\<exists>result dk' console'.
     predict
       \<lparr>dk_find_features = (\<lambda>raw dk. Inr dk),
        dk_filter_features = (\<lambda>raw wanted training_filter dk. Inr ((raw, ()), dk)),
        dk_normalize_data_from_metadata = (\<lambda>df dk. Inr (df, dk)),
        self_data_cleaning_predict = (\<lambda>dk df. Inr dk),
        model_predict_proba = (\<lambda>m X. Inr [[Fin (1/4), Fin (3/4)]]),
        model_classes = (\<lambda>m. [''down'', ''up''])\<rparr>
       ()
       [(''%rsi'', [Fin 0])]
       (\<lparr>data = Map.empty, data_dictionary = Map.empty, training_features_list = [''%rsi''],
         do_predict = [1]\<rparr> :: unit kitchen)
       False []
     = Inr (result, dk', console')
     \<and> dk' = \<lparr>data = Map.empty,
              data_dictionary = [''prediction_features'' \<mapsto> DataFrame [(''%rsi'', [Fin 0])]],
              training_features_list = [''%rsi''], do_predict = [1]\<rparr>
     \<and> console' = [fst result]"
proof -
  let ?host = "\<lparr>dk_find_features = (\<lambda>raw dk. Inr dk),
        dk_filter_features = (\<lambda>raw wanted training_filter dk. Inr ((raw, ()), dk)),
        dk_normalize_data_from_metadata = (\<lambda>df dk. Inr (df, dk)),
        self_data_cleaning_predict = (\<lambda>dk df. Inr dk),
        model_predict_proba = (\<lambda>m X. Inr [[Fin (1/4), Fin (3/4)]]),
        model_classes = (\<lambda>m. [''down'', ''up''])\<rparr>
     :: (unit, unit, dataframe, unit, unit) host"
  let ?raw = "[(''%rsi'', [Fin 0])]"
  let ?dk = "\<lparr>data = Map.empty, data_dictionary = Map.empty, training_features_list = [''%rsi''],
         do_predict = [1]\<rparr> :: unit kitchen"
  obtain result dk' console' where
    run: "predict ?host () ?raw ?dk False [] = Inr (result, dk', console')"
    by (simp add: predict_def Let_def getitem_def new_DataFrame_def)
  from predict_writes_prediction_features [OF run]
  have "dk' = \<lparr>data = Map.empty,
              data_dictionary = [''prediction_features'' \<mapsto> DataFrame ?raw],
              training_features_list = [''%rsi''], do_predict = [1]\<rparr>"
    and "console' = [fst result]"
    by auto
  with run show ?thesis by blast
qed

section \<open>Rounding to the nearest integer, ties to even\<close>






section \<open>The exponent\<close>





section \<open>Rounding a magnitude\<close>






lemma scaled_le: "a / q \<le> c \<Longrightarrow> 0 < q \<Longrightarrow> rne (a / q) \<le> n \<Longrightarrow> of_int n = c
    \<Longrightarrow> of_int (rne (a / q)) * q \<le> c * (q::real)"
proof -
  assume "0 < q" "rne (a / q) \<le> n" "of_int n = c"
  then have "(of_int (rne (a / q)) :: real) \<le> c" by (metis of_int_le_iff)
  with \<open>0 < q\<close> show ?thesis by (intro mult_right_mono) simp_all
qed












section \<open>Rounding to binary64\<close>



lemma round64_not_nan: "round64 x \<noteq> NaN"
  by (simp add: round64_def signed_inf_def)















section \<open>The transform in binary64\<close>



lemma b64_not_nan: "x \<noteq> NaN \<Longrightarrow> b64 x \<noteq> NaN"
  by (cases x) (simp_all add: b64_def round64_not_nan)
















section \<open>Values of the rounding\<close>












end
